theory Spec2Isabelle
  imports Complex_Main "HOL-Library.Char_ord" "HOL-Library.List_Lexorder" "HOL-Library.Multiset"
begin

section \<open>Values of the HTTP layer\<close>

text \<open>
  The handlers of \<^verbatim>\<open>server/server.js\<close> read fields of a parsed JSON body
  (\<^verbatim>\<open>req.body\<close>), of the query string (\<^verbatim>\<open>req.query\<close>) and of the route
  (\<^verbatim>\<open>req.params\<close>). A field is any JavaScript value the body parser can produce, or
  \<^verbatim>\<open>undefined\<close> when the key is absent. Numbers are kept as rationals: the handlers
  only ever test a number for being zero (\<^verbatim>\<open>NaN\<close> cannot come out of a JSON body).
\<close>

datatype jsval =
    Undefined
  | Null
  | Bool bool
  | Num rat
  | Str string
  | Arr "jsval list"
  | Obj "(string \<times> jsval) list"

text \<open>JavaScript's \<^verbatim>\<open>ToBoolean\<close>, which \<^verbatim>\<open>!x\<close>, \<^verbatim>\<open>x || y\<close> and \<^verbatim>\<open>if (x)\<close> apply.\<close>

fun truthy :: "jsval \<Rightarrow> bool" where
  "truthy Undefined = False"
| "truthy Null = False"
| "truthy (Bool b) = b"
| "truthy (Num n) = (n \<noteq> 0)"
| "truthy (Str s) = (s \<noteq> [])"
| "truthy (Arr xs) = True"
| "truthy (Obj kvs) = True"

text \<open>\<^verbatim>\<open>a || b\<close>\<close>

definition js_or :: "jsval \<Rightarrow> jsval \<Rightarrow> jsval" where
  "js_or a b = (if truthy a then a else b)"

text \<open>Destructuring \<^verbatim>\<open>const { k } = obj\<close>: the value under the key, or \<^verbatim>\<open>undefined\<close>.\<close>

definition js_get :: "(string \<times> jsval) list \<Rightarrow> string \<Rightarrow> jsval" where
  "js_get obj k = (case map_of obj k of None \<Rightarrow> Undefined | Some v \<Rightarrow> v)"

text \<open>
  String conversion, as a template literal applies it to a value of the body. An object
  with an own key \<^verbatim>\<open>toString\<close> makes it throw a TypeError: the value under the key
  came out of the parser and is not callable, and \<^verbatim>\<open>valueOf\<close> gives back the object.
  An array is joined, which converts every element but \<^verbatim>\<open>null\<close> and
  \<^verbatim>\<open>undefined\<close>, so it throws when one of its elements does. Every other value
  converts.
\<close>

fun to_string_throws :: "jsval \<Rightarrow> bool" where
  "to_string_throws (Arr xs) = list_ex to_string_throws xs"
| "to_string_throws (Obj kvs) = (''toString'' \<in> set (map fst kvs))"
| "to_string_throws v = False"

text \<open>A field that is missing (absent or \<^verbatim>\<open>null\<close>) or the empty string.\<close>

definition missing_or_empty :: "jsval \<Rightarrow> bool" where
  "missing_or_empty v = (v = Undefined \<or> v = Null \<or> v = Str [])"

section \<open>The hosted store\<close>

text \<open>
  The tables live in a hosted database reached through a client library; neither is part of
  the repository. The model keeps the two tables the handlers below touch, as lists of rows
  in insertion order, and gives each client call the meaning its query builder spells out
  (\<^verbatim>\<open>eq\<close>, \<^verbatim>\<open>gte\<close>, \<^verbatim>\<open>lte\<close>, \<^verbatim>\<open>order\<close>, \<^verbatim>\<open>limit\<close>, \<^verbatim>\<open>insert\<close>,
  \<^verbatim>\<open>update\<close>). Timestamps are instants in milliseconds since the epoch; the ISO strings
  the code sends denote exactly these instants.
\<close>

record student =
  stu_id :: string
  name :: string
  email :: string
  is_trained :: bool

record attendance_record =
  att_id :: nat
  student_id :: jsval
  student_name :: jsval
  room_id :: jsval
  confidence :: jsval
  timestamp :: int

record database =
  students :: "student list"
  attendance :: "attendance_record list"
  attendance_seq :: nat

text \<open>
  How one call to the store ends. The client resolves to \<^verbatim>\<open>{ data, error }\<close>: either
  \<open>Data\<close> rows, or \<open>Failed\<close> with the error's message. A call may also throw, which the
  handler's \<^verbatim>\<open>catch\<close> sees. Which of the three happens is decided outside the program, so
  every call takes a \<open>fault\<close> telling it. A call that fails leaves the tables as they were.
\<close>

datatype fault = NoFault | Rejects string | Throws

datatype 'a reply = Data 'a | Failed string | Thrown

datatype storage_call = SelectCall | InsertCall | UpdateCall

definition order_timestamp_desc :: "attendance_record list \<Rightarrow> attendance_record list" where
  "order_timestamp_desc rs = sort_key (\<lambda>r. - timestamp r) rs"

definition order_name_asc :: "student list \<Rightarrow> student list" where
  "order_name_asc ss = sort_key name ss"

text \<open>
  The filters a handler chains onto a query of the attendance table:
  \<^verbatim>\<open>.eq('student_id', v)\<close>, \<^verbatim>\<open>.eq('room_id', v)\<close>, \<^verbatim>\<open>.gte('timestamp', t)\<close>,
  \<^verbatim>\<open>.lte('timestamp', t)\<close>. A row is selected when it passes all of them.
\<close>

datatype condition =
    EqStudent jsval
  | EqRoom jsval
  | GteTimestamp int
  | LteTimestamp int

fun holds :: "condition \<Rightarrow> attendance_record \<Rightarrow> bool" where
  "holds (EqStudent v) a = (student_id a = v)"
| "holds (EqRoom v) a = (room_id a = v)"
| "holds (GteTimestamp t) a = (t \<le> timestamp a)"
| "holds (LteTimestamp t) a = (timestamp a \<le> t)"

definition limit_rows :: "nat option \<Rightarrow> 'a list \<Rightarrow> 'a list" where
  "limit_rows l rs = (case l of None \<Rightarrow> rs | Some n \<Rightarrow> take n rs)"

text \<open>
  \<^verbatim>\<open>from('attendance').select('*').order('timestamp', { ascending: false })\<close> with the
  filters \<open>cs\<close> and, when given, \<^verbatim>\<open>.limit(n)\<close>.
\<close>

definition select_attendance ::
  "fault \<Rightarrow> database \<Rightarrow> condition list \<Rightarrow> nat option \<Rightarrow> attendance_record list reply" where
  "select_attendance f db cs l =
     (case f of
        NoFault \<Rightarrow>
          Data (limit_rows l (order_timestamp_desc
            (filter (\<lambda>a. list_all (\<lambda>c. holds c a) cs) (attendance db))))
      | Rejects msg \<Rightarrow> Failed msg
      | Throws \<Rightarrow> Thrown)"

text \<open>
  \<^verbatim>\<open>from('students').select('*').order('name', { ascending: true })\<close>, with
  \<^verbatim>\<open>.eq('is_trained', b)\<close> when \<open>flt = Some b\<close>.
\<close>

definition select_students :: "fault \<Rightarrow> database \<Rightarrow> bool option \<Rightarrow> student list reply" where
  "select_students f db flt =
     (case f of
        NoFault \<Rightarrow>
          Data (order_name_asc
            (filter (\<lambda>s. case flt of None \<Rightarrow> True | Some b \<Rightarrow> is_trained s = b)
               (students db)))
      | Rejects msg \<Rightarrow> Failed msg
      | Throws \<Rightarrow> Thrown)"

text \<open>
  \<^verbatim>\<open>from('students').update({ is_trained: true }).eq('id', id).select()\<close>: every row
  with that id gets the flag, and the answer is the rows that were updated.
\<close>

definition update_trained ::
  "fault \<Rightarrow> database \<Rightarrow> string \<Rightarrow> student list reply \<times> database" where
  "update_trained f db i =
     (case f of
        NoFault \<Rightarrow>
          (let ss = map (\<lambda>s. if stu_id s = i then s\<lparr>is_trained := True\<rparr> else s) (students db)
           in (Data (filter (\<lambda>s. stu_id s = i) ss), db\<lparr>students := ss\<rparr>))
      | Rejects msg \<Rightarrow> (Failed msg, db)
      | Throws \<Rightarrow> (Thrown, db))"

text \<open>
  \<^verbatim>\<open>from('attendance').insert([row]).select()\<close>: the store gives the row its id, appends
  it, and answers with the rows it inserted.
\<close>

definition insert_attendance ::
  "fault \<Rightarrow> database \<Rightarrow> jsval \<Rightarrow> jsval \<Rightarrow> jsval \<Rightarrow> jsval \<Rightarrow> int
     \<Rightarrow> attendance_record list reply \<times> database" where
  "insert_attendance f db sid sname rid conf ts =
     (case f of
        NoFault \<Rightarrow>
          (let row = \<lparr>att_id = attendance_seq db, student_id = sid, student_name = sname,
                       room_id = rid, confidence = conf, timestamp = ts\<rparr>
           in (Data [row],
               db\<lparr>attendance := attendance db @ [row],
                  attendance_seq := Suc (attendance_seq db)\<rparr>))
      | Rejects msg \<Rightarrow> (Failed msg, db)
      | Throws \<Rightarrow> (Thrown, db))"

section \<open>Responses\<close>

datatype payload =
    ErrorBody string
  | DuplicateBody string "attendance_record option"
  | ConfirmedBody string "attendance_record option"
  | AttendanceList "attendance_record list"
  | StudentList "student list"
  | TrainedBody string "student option"

record response =
  status :: nat
  body :: payload

text \<open>\<^verbatim>\<open>data[0]\<close>: the first row, or \<^verbatim>\<open>undefined\<close> (the key is then left out of the JSON).\<close>

definition first_row :: "'a list \<Rightarrow> 'a option" where
  "first_row xs = (case xs of [] \<Rightarrow> None | x # _ \<Rightarrow> Some x)"

definition internal_server_error :: response where
  "internal_server_error = \<lparr>status = 500, body = ErrorBody ''Internal server error''\<rparr>"

text \<open>What a handler leaves behind: the response, the store, the calls made to the store.\<close>

definition response_of :: "response \<times> database \<times> storage_call list \<Rightarrow> response" where
  "response_of out = fst out"

definition db_of :: "response \<times> database \<times> storage_call list \<Rightarrow> database" where
  "db_of out = fst (snd out)"

definition calls_of :: "response \<times> database \<times> storage_call list \<Rightarrow> storage_call list" where
  "calls_of out = snd (snd out)"

section \<open>POST /api/attendance/confirm\<close>

text \<open>
  What the handler reads from outside during one request: the clock at the duplicate check
  (\<^verbatim>\<open>Date.now()\<close>), the clock when the row is built (\<^verbatim>\<open>new Date()\<close>, after the
  check has been awaited), and how the two calls to the store end.
\<close>

record confirm_env =
  now_check :: int
  now_insert :: int
  check_fault :: fault
  insert_fault :: fault

definition cooldown_ms :: int where
  "cooldown_ms = 5 * 60 * 1000"

text \<open>
  The handler (lines 164 to 230) takes \<^verbatim>\<open>req.body\<close>, the object a body parser left
  there, as an association list of keys and values. It returns the response, the store
  after the request, and the calls it made to the store, in order.

  \<open>confirm_insert\<close> is the second half of the handler (lines 204 to 225), reached when
  the duplicate check found nothing or was answered with an error: the insert and the
  responses that follow it.
\<close>

text \<open>
  The log at lines 168 to 173 evaluates
  \<^verbatim>\<open>confidence ? `${confidence}%` : 'N/A'\<close> inside the \<^verbatim>\<open>try\<close>, before the
  validation: when the confidence is truthy and its string conversion throws, the
  \<^verbatim>\<open>catch\<close> answers 500.
\<close>

definition log_throws :: "jsval \<Rightarrow> bool" where
  "log_throws conf = (truthy conf \<and> to_string_throws conf)"

definition confirm_insert ::
  "confirm_env \<Rightarrow> jsval \<Rightarrow> jsval \<Rightarrow> jsval \<Rightarrow> jsval \<Rightarrow> database
     \<Rightarrow> response \<times> database \<times> storage_call list" where
  "confirm_insert env sid sname rid conf db =
     (case insert_attendance (insert_fault env) db sid sname rid (js_or conf Null)
             (now_insert env) of
        (Failed msg, db') \<Rightarrow>
          (\<lparr>status = 500, body = ErrorBody msg\<rparr>, db', [SelectCall, InsertCall])
      | (Thrown, db') \<Rightarrow> (internal_server_error, db', [SelectCall, InsertCall])
      | (Data rows, db') \<Rightarrow>
          (\<lparr>status = 201,
            body = ConfirmedBody ''Attendance confirmed successfully'' (first_row rows)\<rparr>,
           db', [SelectCall, InsertCall]))"

definition confirm ::
  "confirm_env \<Rightarrow> (string \<times> jsval) list \<Rightarrow> database
     \<Rightarrow> response \<times> database \<times> storage_call list" where
  "confirm env req db =
     (let sid = js_get req ''student_id'';
          sname = js_get req ''student_name'';
          rid = js_get req ''room_id'';
          conf = js_get req ''confidence''
      in if log_throws conf then (internal_server_error, db, [])
         else if \<not> truthy sid \<or> \<not> truthy sname \<or> \<not> truthy rid then
           (\<lparr>status = 400,
             body = ErrorBody ''Missing required fields: student_id, student_name, room_id''\<rparr>,
            db, [])
         else
           (let fiveMinutesAgo = now_check env - cooldown_ms
            in case select_attendance (check_fault env) db
                      [EqStudent sid, EqRoom rid, GteTimestamp fiveMinutesAgo] (Some 1) of
                 Thrown \<Rightarrow> (internal_server_error, db, [SelectCall])
               | Failed msg \<Rightarrow> confirm_insert env sid sname rid conf db
               | Data recent \<Rightarrow>
                   (if recent \<noteq> [] then
                      (\<lparr>status = 409,
                        body = DuplicateBody ''Attendance already recorded recently''
                                 (first_row recent)\<rparr>,
                       db, [SelectCall])
                    else confirm_insert env sid sname rid conf db)))"

section \<open>POST /api/students/:id/trained\<close>

text \<open>Lines 114 to 136; \<open>i\<close> is the \<^verbatim>\<open>:id\<close> of the route.\<close>

definition mark_trained ::
  "fault \<Rightarrow> string \<Rightarrow> database \<Rightarrow> response \<times> database \<times> storage_call list" where
  "mark_trained f i db =
     (case update_trained f db i of
        (Failed msg, db') \<Rightarrow> (\<lparr>status = 500, body = ErrorBody msg\<rparr>, db', [UpdateCall])
      | (Thrown, db') \<Rightarrow> (internal_server_error, db', [UpdateCall])
      | (Data rows, db') \<Rightarrow>
          (\<lparr>status = 200, body = TrainedBody ''Student marked as trained'' (first_row rows)\<rparr>,
           db', [UpdateCall]))"

section \<open>GET /api/students and GET /api/students/untrained\<close>

text \<open>
  Lines 32 to 76. The two handlers differ only in the filter on \<^verbatim>\<open>is_trained\<close>, which
  \<open>list_students\<close> takes as a parameter.
\<close>

definition list_students ::
  "bool option \<Rightarrow> fault \<Rightarrow> database \<Rightarrow> response \<times> database \<times> storage_call list" where
  "list_students flt f db =
     (case select_students f db flt of
        Failed msg \<Rightarrow> (\<lparr>status = 500, body = ErrorBody msg\<rparr>, db, [SelectCall])
      | Thrown \<Rightarrow> (internal_server_error, db, [SelectCall])
      | Data rows \<Rightarrow> (\<lparr>status = 200, body = StudentList rows\<rparr>, db, [SelectCall]))"

definition get_students ::
  "fault \<Rightarrow> database \<Rightarrow> response \<times> database \<times> storage_call list" where
  "get_students = list_students None"

definition get_untrained_students ::
  "fault \<Rightarrow> database \<Rightarrow> response \<times> database \<times> storage_call list" where
  "get_untrained_students = list_students (Some False)"

section \<open>GET /api/attendance\<close>

text \<open>Lines 233 to 269.\<close>

text \<open>
  Calendar arithmetic. \<open>days_from_civil y m d\<close> is the number of days from 1970-01-01 to
  the date \<open>y-m-d\<close> of the proleptic Gregorian calendar; \<open>utc_ms\<close> is the instant of a
  UTC date and time of day, in milliseconds since the epoch.
\<close>

definition day_ms :: int where
  "day_ms = 86400000"

definition days_from_civil :: "int \<Rightarrow> int \<Rightarrow> int \<Rightarrow> int" where
  "days_from_civil y m d =
     (let y' = (if m \<le> 2 then y - 1 else y);
          era = y' div 400;
          yoe = y' - era * 400;
          doy = (153 * ((m + 9) mod 12) + 2) div 5 + d - 1;
          doe = yoe * 365 + yoe div 4 - yoe div 100 + doy
      in era * 146097 + doe - 719468)"

definition utc_ms :: "int \<Rightarrow> int \<Rightarrow> int \<Rightarrow> int \<Rightarrow> int \<Rightarrow> int \<Rightarrow> int \<Rightarrow> int" where
  "utc_ms y m d hh mm ss ms =
     days_from_civil y m d * day_ms + hh * 3600000 + mm * 60000 + ss * 1000 + ms"

text \<open>
  The \<^verbatim>\<open>date\<close> parameter of the query string. \<open>NoDate\<close> is a falsy value (absent or
  empty). \<open>DateOnly y m d\<close> is a date-only string \<^verbatim>\<open>YYYY-MM-DD\<close>, the form the route
  documents, which \<^verbatim>\<open>new Date\<close> reads as midnight UTC of that date. \<open>InvalidDate\<close> is a
  string \<^verbatim>\<open>new Date\<close> cannot read; the result is then an invalid date (\<open>None\<close>), which
  stays invalid under \<^verbatim>\<open>setHours\<close> and makes \<^verbatim>\<open>toISOString\<close> throw. Other spellings
  of a date and time are not part of the model.
\<close>

datatype date_param = NoDate | DateOnly int int int | InvalidDate

definition new_Date :: "date_param \<Rightarrow> int option" where
  "new_Date p =
     (case p of
        DateOnly y m d \<Rightarrow>
          (if 0 \<le> y \<and> y \<le> 9999 \<and> 1 \<le> m \<and> m \<le> 12 \<and> 1 \<le> d \<and> d \<le> 31
           then Some (days_from_civil y m d * day_ms) else None)
      | _ \<Rightarrow> None)"

text \<open>
  \<^verbatim>\<open>setHours(h, m, s, ms)\<close> keeps the local calendar day of the instant and replaces
  the local time of day. The server's time zone is a fixed offset \<open>tz\<close> in milliseconds,
  local time being UTC plus \<open>tz\<close>; \<open>tod\<close> is the new time of day in milliseconds.
\<close>

definition setHours :: "int \<Rightarrow> int \<Rightarrow> int \<Rightarrow> int" where
  "setHours tz tod t = ((t + tz) div day_ms) * day_ms + tod - tz"

definition time_of_day :: "int \<Rightarrow> int \<Rightarrow> int \<Rightarrow> int \<Rightarrow> int" where
  "time_of_day hh mm ss ms = hh * 3600000 + mm * 60000 + ss * 1000 + ms"

text \<open>
  The block under \<^verbatim>\<open>if (date)\<close>: the two timestamp filters, or \<open>None\<close> when
  \<^verbatim>\<open>toISOString\<close> throws.
\<close>

definition date_conditions :: "int \<Rightarrow> date_param \<Rightarrow> condition list option" where
  "date_conditions tz p =
     (case p of
        NoDate \<Rightarrow> Some []
      | _ \<Rightarrow>
          (case new_Date p of
             None \<Rightarrow> None
           | Some t \<Rightarrow>
               (let startOfDay = setHours tz (time_of_day 0 0 0 0) t;
                    endOfDay = setHours tz (time_of_day 23 59 59 999) t
                in Some [GteTimestamp startOfDay, LteTimestamp endOfDay])))"

record attendance_query =
  q_student_id :: jsval
  q_room_id :: jsval
  q_date :: date_param

record query_env =
  tz_offset :: int
  query_fault :: fault

definition get_attendance ::
  "query_env \<Rightarrow> attendance_query \<Rightarrow> database
     \<Rightarrow> response \<times> database \<times> storage_call list" where
  "get_attendance env q db =
     (let c1 = (if truthy (q_student_id q) then [EqStudent (q_student_id q)] else []);
          c2 = (if truthy (q_room_id q) then [EqRoom (q_room_id q)] else [])
      in case date_conditions (tz_offset env) (q_date q) of
           None \<Rightarrow> (internal_server_error, db, [])
         | Some c3 \<Rightarrow>
             (case select_attendance (query_fault env) db (c1 @ c2 @ c3) None of
                Failed msg \<Rightarrow> (\<lparr>status = 500, body = ErrorBody msg\<rparr>, db, [SelectCall])
              | Thrown \<Rightarrow> (internal_server_error, db, [SelectCall])
              | Data rows \<Rightarrow> (\<lparr>status = 200, body = AttendanceList rows\<rparr>, db, [SelectCall])))"

section \<open>Notions the properties are stated with\<close>

text \<open>
  A request the validation lets through: the three required fields are truthy. Every
  non-empty string is.
\<close>

definition valid_request :: "(string \<times> jsval) list \<Rightarrow> bool" where
  "valid_request req =
     (truthy (js_get req ''student_id'') \<and> truthy (js_get req ''student_name'')
      \<and> truthy (js_get req ''room_id''))"

text \<open>A request whose log line is written without an exception.\<close>

definition log_ok :: "(string \<times> jsval) list \<Rightarrow> bool" where
  "log_ok req = (\<not> log_throws (js_get req ''confidence''))"

text \<open>
  A stored record for the pair \<open>(sid, rid)\<close> whose timestamp lies within the last five
  minutes of \<open>now\<close>, the lower end included.
\<close>

definition in_window :: "int \<Rightarrow> jsval \<Rightarrow> jsval \<Rightarrow> attendance_record \<Rightarrow> bool" where
  "in_window now sid rid a =
     (student_id a = sid \<and> room_id a = rid \<and> now - cooldown_ms \<le> timestamp a)"

definition recent_rows :: "database \<Rightarrow> jsval \<Rightarrow> jsval \<Rightarrow> int \<Rightarrow> attendance_record list" where
  "recent_rows db sid rid now = filter (\<lambda>a. in_window now sid rid a) (attendance db)"

text \<open>The row the handler builds for a request, with the id the store will give it.\<close>

definition new_record ::
  "confirm_env \<Rightarrow> (string \<times> jsval) list \<Rightarrow> database \<Rightarrow> attendance_record" where
  "new_record env req db =
     \<lparr>att_id = attendance_seq db,
      student_id = js_get req ''student_id'',
      student_name = js_get req ''student_name'',
      room_id = js_get req ''room_id'',
      confidence = js_or (js_get req ''confidence'') Null,
      timestamp = now_insert env\<rparr>"

text \<open>
  The instants at which the calendar date \<open>y-m-d\<close> begins and ends in a zone whose local
  time is UTC plus \<open>tz\<close> milliseconds: 00:00:00.000 and 23:59:59.999 local time.
\<close>

definition local_day_start :: "int \<Rightarrow> int \<Rightarrow> int \<Rightarrow> int \<Rightarrow> int" where
  "local_day_start tz y m d = days_from_civil y m d * day_ms - tz"

definition local_day_end :: "int \<Rightarrow> int \<Rightarrow> int \<Rightarrow> int \<Rightarrow> int" where
  "local_day_end tz y m d = local_day_start tz y m d + day_ms - 1"

section \<open>Example data\<close>

definition db0 :: database where
  "db0 = \<lparr>students = [], attendance = [], attendance_seq = 0\<rparr>"

text \<open>A request served at the instant \<open>t\<close> by a store that answers every call.\<close>

definition env_at :: "int \<Rightarrow> confirm_env" where
  "env_at t = \<lparr>now_check = t, now_insert = t, check_fault = NoFault, insert_fault = NoFault\<rparr>"

text \<open>
  The request of the scenario: student S1, Alice, room R1, confidence 92.5.
\<close>

definition req_alice :: "(string \<times> jsval) list" where
  "req_alice = [(''student_id'', Str ''S1''), (''student_name'', Str ''Alice''),
                (''room_id'', Str ''R1''), (''confidence'', Num (185 / 2))]"

text \<open>The same request with a confidence of exactly 0.\<close>

definition req_zero_confidence :: "(string \<times> jsval) list" where
  "req_zero_confidence = [(''student_id'', Str ''S1''), (''student_name'', Str ''Alice''),
                          (''room_id'', Str ''R1''), (''confidence'', Num 0)]"

text \<open>
  Two bodies whose confidence is \<^verbatim>\<open>{"toString": 1}\<close>: one without a
  \<^verbatim>\<open>room_id\<close>, one with all three required fields.
\<close>

definition req_bad_log :: "(string \<times> jsval) list" where
  "req_bad_log = [(''student_id'', Str ''S1''), (''student_name'', Str ''Alice''),
                  (''confidence'', Obj [(''toString'', Num 1)])]"

definition req_bad_log_full :: "(string \<times> jsval) list" where
  "req_bad_log_full = [(''student_id'', Str ''S1''), (''student_name'', Str ''Alice''),
                       (''room_id'', Str ''R1''),
                       (''confidence'', Obj [(''toString'', Num 1)])]"

text \<open>Requests during which one call to the store fails.\<close>

definition env_check_down :: confirm_env where
  "env_check_down = \<lparr>now_check = 1000, now_insert = 1000,
                      check_fault = Rejects ''fetch failed'', insert_fault = NoFault\<rparr>"

definition env_check_throws :: confirm_env where
  "env_check_throws = \<lparr>now_check = 1000, now_insert = 1000,
                        check_fault = Throws, insert_fault = NoFault\<rparr>"

definition env_insert_down :: confirm_env where
  "env_insert_down = \<lparr>now_check = 1000, now_insert = 1000,
                       check_fault = NoFault, insert_fault = Rejects ''fetch failed''\<rparr>"

definition env_both_down :: confirm_env where
  "env_both_down = \<lparr>now_check = 1000, now_insert = 1000,
                     check_fault = Rejects ''fetch failed'',
                     insert_fault = Rejects ''insert refused''\<rparr>"

text \<open>The ledger after Alice was recorded at the instant 0.\<close>

definition db_alice :: database where
  "db_alice =
     \<lparr>students = [],
      attendance = [\<lparr>att_id = 0, student_id = Str ''S1'', student_name = Str ''Alice'',
                     room_id = Str ''R1'', confidence = Num (185 / 2), timestamp = 0\<rparr>],
      attendance_seq = 1\<rparr>"

text \<open>
  A small school: three students, two of them untrained, and two attendance records, at
  2024-01-10T23:59:00Z and 2024-01-11T00:01:00Z.
\<close>

definition alice :: student where
  "alice = \<lparr>stu_id = ''1'', name = ''Alice'', email = ''alice@x'', is_trained = False\<rparr>"

definition bob :: student where
  "bob = \<lparr>stu_id = ''2'', name = ''Bob'', email = ''bob@x'', is_trained = False\<rparr>"

definition carol :: student where
  "carol = \<lparr>stu_id = ''3'', name = ''Carol'', email = ''carol@x'', is_trained = True\<rparr>"

definition rec_late :: attendance_record where
  "rec_late = \<lparr>att_id = 0, student_id = Str ''S1'', student_name = Str ''Alice'',
               room_id = Str ''R1'', confidence = Null,
               timestamp = utc_ms 2024 1 10 23 59 0 0\<rparr>"

definition rec_next :: attendance_record where
  "rec_next = \<lparr>att_id = 1, student_id = Str ''S2'', student_name = Str ''Bob'',
               room_id = Str ''R1'', confidence = Null,
               timestamp = utc_ms 2024 1 11 0 1 0 0\<rparr>"

definition db_school :: database where
  "db_school = \<lparr>students = [bob, alice, carol], attendance = [rec_late, rec_next],
                 attendance_seq = 2\<rparr>"

text \<open>
  Queries: all records of 2024-01-10; all records of room R1; the records of a student no
  row mentions. \<open>zone h\<close> is a server \<open>h\<close> hours east of UTC whose store answers.
\<close>

definition query_jan10 :: attendance_query where
  "query_jan10 = \<lparr>q_student_id = Undefined, q_room_id = Undefined, q_date = DateOnly 2024 1 10\<rparr>"

definition query_room :: attendance_query where
  "query_room = \<lparr>q_student_id = Undefined, q_room_id = Str ''R1'', q_date = NoDate\<rparr>"

definition query_unknown :: attendance_query where
  "query_unknown = \<lparr>q_student_id = Str ''S9'', q_room_id = Undefined, q_date = NoDate\<rparr>"

definition zone :: "int \<Rightarrow> query_env" where
  "zone hours = \<lparr>tz_offset = hours * 3600000, query_fault = NoFault\<rparr>"

section \<open>Lemmas about the confirmation handler\<close>

lemmas outs = response_of_def db_of_def calls_of_def

lemma select_recent_rows:
  "select_attendance NoFault db [EqStudent sid, EqRoom rid, GteTimestamp (now - cooldown_ms)] (Some (Suc 0))
     = Data (take (Suc 0) (order_timestamp_desc (recent_rows db sid rid now)))"
  by (simp add: select_attendance_def limit_rows_def recent_rows_def in_window_def)

lemma take1_order_empty: "order_timestamp_desc xs = [] \<longleftrightarrow> xs = []"
proof -
  have "length (order_timestamp_desc xs) = length xs" by (simp add: order_timestamp_desc_def)
  then show ?thesis by (metis length_0_conv)
qed

lemma confirm_insert_ok:
  "insert_fault env = NoFault \<Longrightarrow>
   confirm_insert env (js_get req ''student_id'') (js_get req ''student_name'')
      (js_get req ''room_id'') (js_get req ''confidence'') db =
     (\<lparr>status = 201, body = ConfirmedBody ''Attendance confirmed successfully''
          (Some (new_record env req db))\<rparr>,
      db\<lparr>attendance := attendance db @ [new_record env req db],
         attendance_seq := Suc (attendance_seq db)\<rparr>,
      [SelectCall, InsertCall])"
  by (simp add: confirm_insert_def insert_attendance_def new_record_def first_row_def Let_def)

lemma confirm_insert_failed:
  "insert_fault env \<noteq> NoFault \<Longrightarrow>
   status (response_of (confirm_insert env sid sname rid conf db)) = 500
   \<and> db_of (confirm_insert env sid sname rid conf db) = db
   \<and> calls_of (confirm_insert env sid sname rid conf db) = [SelectCall, InsertCall]"
  by (cases "insert_fault env")
     (simp_all add: confirm_insert_def insert_attendance_def outs internal_server_error_def)

lemma confirm_log_throws:
  "\<not> log_ok req \<Longrightarrow> confirm env req db = (internal_server_error, db, [])"
  by (simp add: confirm_def log_ok_def Let_def)

lemma confirm_fresh:
  assumes "valid_request req" "check_fault env = NoFault" "insert_fault env = NoFault"
      and "recent_rows db (js_get req ''student_id'') (js_get req ''room_id'') (now_check env) = []"
      and "log_ok req"
  shows "confirm env req db =
     (\<lparr>status = 201, body = ConfirmedBody ''Attendance confirmed successfully''
          (Some (new_record env req db))\<rparr>,
      db\<lparr>attendance := attendance db @ [new_record env req db],
         attendance_seq := Suc (attendance_seq db)\<rparr>,
      [SelectCall, InsertCall])"
  using assms
  by (simp add: confirm_def valid_request_def log_ok_def Let_def select_recent_rows
        confirm_insert_ok take1_order_empty)

lemma confirm_duplicate:
  assumes "valid_request req" "check_fault env = NoFault"
      and "recent_rows db (js_get req ''student_id'') (js_get req ''room_id'') (now_check env) \<noteq> []"
      and "log_ok req"
  shows "confirm env req db =
     (\<lparr>status = 409, body = DuplicateBody ''Attendance already recorded recently''
          (first_row (order_timestamp_desc
             (recent_rows db (js_get req ''student_id'') (js_get req ''room_id'') (now_check env))))\<rparr>,
      db, [SelectCall])"
proof -
  let ?xs = "order_timestamp_desc (recent_rows db (js_get req ''student_id'') (js_get req ''room_id'') (now_check env))"
  have ne: "take (Suc 0) ?xs \<noteq> []" using assms(3) by (simp add: take1_order_empty)
  have fr: "first_row (take (Suc 0) ?xs) = first_row ?xs"
    by (cases ?xs) (simp_all add: first_row_def)
  show ?thesis using assms(1,2,4) ne fr
    by (simp add: confirm_def valid_request_def log_ok_def Let_def select_recent_rows)
qed

lemma missing_or_empty_falsy: "missing_or_empty v \<Longrightarrow> \<not> truthy v"
  by (auto simp: missing_or_empty_def)

lemma confirm_insert_status:
  "status (fst (confirm_insert env sid sname rid conf db)) = 500
   \<or> status (fst (confirm_insert env sid sname rid conf db)) = 201"
  by (auto simp: confirm_insert_def insert_attendance_def internal_server_error_def Let_def
           split: fault.splits)

lemma confirm_201_iff:
  assumes "status (response_of (confirm env req db)) = 201"
  shows "valid_request req \<and> log_ok req \<and> insert_fault env = NoFault
       \<and> check_fault env \<noteq> Throws
       \<and> (check_fault env = NoFault \<longrightarrow>
            recent_rows db (js_get req ''student_id'') (js_get req ''room_id'') (now_check env) = [])
       \<and> confirm env req db =
           (\<lparr>status = 201, body = ConfirmedBody ''Attendance confirmed successfully''
               (Some (new_record env req db))\<rparr>,
            db\<lparr>attendance := attendance db @ [new_record env req db],
               attendance_seq := Suc (attendance_seq db)\<rparr>,
            [SelectCall, InsertCall])"
proof -
  have l: "log_ok req"
  proof (rule ccontr)
    assume "\<not> log_ok req"
    from confirm_log_throws [OF this, of env db] assms show False
      by (simp add: response_of_def internal_server_error_def)
  qed
  have v: "valid_request req"
    using assms l
    by (auto simp: confirm_def valid_request_def log_ok_def response_of_def Let_def
          split: if_splits)
  have nt: "check_fault env \<noteq> Throws"
    using assms v l
    by (auto simp: confirm_def valid_request_def log_ok_def response_of_def
          select_attendance_def internal_server_error_def Let_def)
  have fresh: "recent_rows db (js_get req ''student_id'') (js_get req ''room_id'') (now_check env) = []"
    if "check_fault env = NoFault"
  proof (rule ccontr)
    assume "\<not> ?thesis"
    from confirm_duplicate [OF v that this l] assms show False by (simp add: response_of_def)
  qed
  have reach: "confirm env req db =
      confirm_insert env (js_get req ''student_id'') (js_get req ''student_name'')
        (js_get req ''room_id'') (js_get req ''confidence'') db"
  proof (cases "check_fault env")
    case NoFault
    with v l fresh show ?thesis
      by (simp add: confirm_def valid_request_def log_ok_def Let_def select_recent_rows
            take1_order_empty)
  next
    case (Rejects m)
    with v l show ?thesis
      by (simp add: confirm_def valid_request_def log_ok_def Let_def select_attendance_def)
  next
    case Throws
    with nt show ?thesis by simp
  qed
  have ins: "insert_fault env = NoFault"
  proof (rule ccontr)
    assume "insert_fault env \<noteq> NoFault"
    from confirm_insert_failed [OF this, of "js_get req ''student_id''" "js_get req ''student_name''"
        "js_get req ''room_id''" "js_get req ''confidence''" db] assms reach
    show False by simp
  qed
  from v l nt fresh ins reach confirm_insert_ok [OF ins, of req db] show ?thesis by simp
qed

lemma confirm_missing_field_when_log_ok:
  assumes "log_ok req"
      and "missing_or_empty (js_get req ''student_id'')
         \<or> missing_or_empty (js_get req ''student_name'')
         \<or> missing_or_empty (js_get req ''room_id'')"
  shows "confirm env req db =
           (\<lparr>status = 400,
             body = ErrorBody ''Missing required fields: student_id, student_name, room_id''\<rparr>,
            db, [])"
  using assms missing_or_empty_falsy by (auto simp: confirm_def log_ok_def)

lemma first_row_order:
  assumes "xs \<noteq> []"
  shows "\<exists>r. first_row (order_timestamp_desc xs) = Some r \<and> r \<in> set xs"
proof -
  have s: "set (order_timestamp_desc xs) = set xs" by (simp add: order_timestamp_desc_def)
  from assms have "order_timestamp_desc xs \<noteq> []" by (simp add: take1_order_empty)
  then obtain r rs where e: "order_timestamp_desc xs = r # rs" by (cases "order_timestamp_desc xs") auto
  then have "r \<in> set (order_timestamp_desc xs)" by simp
  with s e show ?thesis by (simp add: first_row_def)
qed

lemma recent_rows_append:
  "recent_rows (db\<lparr>attendance := attendance db @ [r], attendance_seq := n\<rparr>) sid rid now =
     recent_rows db sid rid now @ (if in_window now sid rid r then [r] else [])"
  by (simp add: recent_rows_def)

lemma set_recent_rows:
  "r \<in> set (recent_rows db sid rid now) \<longleftrightarrow> r \<in> set (attendance db) \<and> in_window now sid rid r"
  by (simp add: recent_rows_def)

lemma recent_rows_later:
  assumes "recent_rows db sid rid t = []" "t \<le> t'"
  shows "recent_rows db sid rid t' = []"
  using assms by (auto simp: recent_rows_def in_window_def filter_empty_conv)

lemma new_record_in_window:
  "in_window now (js_get req ''student_id'') (js_get req ''room_id'') (new_record env req db)
     \<longleftrightarrow> now - cooldown_ms \<le> now_insert env"
  by (simp add: in_window_def new_record_def)

lemma confirm_check_rejected:
  assumes "valid_request req" "check_fault env = Rejects m" "log_ok req"
  shows "confirm env req db =
      confirm_insert env (js_get req ''student_id'') (js_get req ''student_name'')
        (js_get req ''room_id'') (js_get req ''confidence'') db"
  using assms
  by (simp add: confirm_def valid_request_def log_ok_def Let_def select_attendance_def)

lemma confirm_check_thrown:
  assumes "valid_request req" "check_fault env = Throws" "log_ok req"
  shows "confirm env req db = (internal_server_error, db, [SelectCall])"
  using assms
  by (simp add: confirm_def valid_request_def log_ok_def Let_def select_attendance_def)

lemma confirm_insert_rejected:
  "insert_fault env = Rejects m \<Longrightarrow>
   confirm_insert env sid sname rid conf db =
     (\<lparr>status = 500, body = ErrorBody m\<rparr>, db, [SelectCall, InsertCall])"
  by (simp add: confirm_insert_def insert_attendance_def)

lemma confirm_insert_thrown:
  "insert_fault env = Throws \<Longrightarrow>
   confirm_insert env sid sname rid conf db =
     (internal_server_error, db, [SelectCall, InsertCall])"
  by (simp add: confirm_insert_def insert_attendance_def)

lemma confirm_reaches_insert:
  assumes "valid_request req" "log_ok req" "check_fault env = NoFault"
      and "recent_rows db (js_get req ''student_id'') (js_get req ''room_id'') (now_check env) = []"
  shows "confirm env req db =
      confirm_insert env (js_get req ''student_id'') (js_get req ''student_name'')
        (js_get req ''room_id'') (js_get req ''confidence'') db"
  using assms
  by (simp add: confirm_def valid_request_def log_ok_def Let_def select_recent_rows
        take1_order_empty)

lemma confirm_db_cases:
  "db_of (confirm env req db) = db
   \<or> (status (response_of (confirm env req db)) = 201
      \<and> db_of (confirm env req db) =
          db\<lparr>attendance := attendance db @ [new_record env req db],
             attendance_seq := Suc (attendance_seq db)\<rparr>)"
proof (cases "status (response_of (confirm env req db)) = 201")
  case True
  from confirm_201_iff [OF True] True show ?thesis by (simp add: db_of_def)
next
  case False
  have "db_of (confirm_insert env sid sname rid conf db) = db
        \<or> status (response_of (confirm_insert env sid sname rid conf db)) = 201"
    for sid sname rid conf
    by (cases "insert_fault env")
       (simp_all add: confirm_insert_def insert_attendance_def outs Let_def internal_server_error_def)
  from this [of "js_get req ''student_id''" "js_get req ''student_name''"
        "js_get req ''room_id''" "js_get req ''confidence''"] False
  show ?thesis
    by (auto simp: confirm_def outs Let_def select_attendance_def
          split: if_splits reply.splits fault.splits)
qed

lemma confirm_calls:
  "calls_of (confirm env req db) = [] \<or> calls_of (confirm env req db) = [SelectCall]
   \<or> calls_of (confirm env req db) = [SelectCall, InsertCall]"
proof -
  have "calls_of (confirm_insert env sid sname rid conf db) = [SelectCall, InsertCall]"
    for sid sname rid conf
    by (cases "insert_fault env")
       (simp_all add: confirm_insert_def insert_attendance_def outs Let_def)
  from this [of "js_get req ''student_id''" "js_get req ''student_name''"
        "js_get req ''room_id''" "js_get req ''confidence''"]
  show ?thesis
    by (auto simp: confirm_def calls_of_def Let_def select_attendance_def
          split: if_splits reply.splits fault.splits)
qed

lemma confirm_second_in_window:
  assumes pair: "js_get req2 ''student_id'' = js_get req1 ''student_id''"
                "js_get req2 ''room_id'' = js_get req1 ''room_id''"
      and first: "status (response_of (confirm env1 req1 db)) = 201"
      and clock: "now_check env1 \<le> now_insert env1"
      and close: "now_check env2 - now_check env1 < cooldown_ms"
  shows "recent_rows (db_of (confirm env1 req1 db)) (js_get req2 ''student_id'')
           (js_get req2 ''room_id'') (now_check env2) =
         recent_rows db (js_get req1 ''student_id'') (js_get req1 ''room_id'') (now_check env2)
           @ [new_record env1 req1 db]"
proof -
  from confirm_201_iff [OF first]
  have db1: "db_of (confirm env1 req1 db) =
      db\<lparr>attendance := attendance db @ [new_record env1 req1 db],
         attendance_seq := Suc (attendance_seq db)\<rparr>"
    by (simp add: db_of_def)
  have "in_window (now_check env2) (js_get req1 ''student_id'') (js_get req1 ''room_id'')
          (new_record env1 req1 db)"
    using clock close by (simp add: new_record_in_window)
  then show ?thesis unfolding db1 pair by (simp add: recent_rows_append)
qed

lemma confirm_pair_one_row:
  assumes pair: "js_get req2 ''student_id'' = js_get req1 ''student_id''"
                "js_get req2 ''room_id'' = js_get req1 ''room_id''"
      and clock: "now_check env1 \<le> now_insert env1"
      and close: "now_check env2 - now_check env1 < cooldown_ms"
      and answered: "check_fault env2 = NoFault"
  shows "length (attendance (db_of (confirm env2 req2 (db_of (confirm env1 req1 db)))))
           \<le> Suc (length (attendance db))"
proof (cases "status (response_of (confirm env1 req1 db)) = 201")
  case True
  let ?db1 = "db_of (confirm env1 req1 db)"
  from confirm_201_iff [OF True]
  have l1: "length (attendance ?db1) = Suc (length (attendance db))"
    by (simp add: db_of_def)
  have "db_of (confirm env2 req2 ?db1) = ?db1"
  proof (rule ccontr)
    assume "db_of (confirm env2 req2 ?db1) \<noteq> ?db1"
    with confirm_db_cases [of env2 req2 ?db1]
    have "status (response_of (confirm env2 req2 ?db1)) = 201" by blast
    from confirm_201_iff [OF this] answered
    have "recent_rows ?db1 (js_get req2 ''student_id'') (js_get req2 ''room_id'')
            (now_check env2) = []" by blast
    with confirm_second_in_window [OF pair True clock close] show False by simp
  qed
  with l1 show ?thesis by simp
next
  case False
  let ?db1 = "db_of (confirm env1 req1 db)"
  from False confirm_db_cases [of env1 req1 db] have d: "?db1 = db" by blast
  from confirm_db_cases [of env2 req2 ?db1]
  have "length (attendance (db_of (confirm env2 req2 ?db1))) \<le> Suc (length (attendance ?db1))"
    by (elim disjE) simp_all
  then show ?thesis unfolding d .
qed

subsection \<open>The example requests, evaluated\<close>

lemmas confirm_eval =
  confirm_def log_throws_def confirm_insert_def select_attendance_def insert_attendance_def limit_rows_def
  order_timestamp_desc_def js_get_def js_or_def first_row_def cooldown_ms_def Let_def
  response_of_def db_of_def calls_of_def internal_server_error_def

lemma env_at_sel:
  "now_check (env_at t) = t" "now_insert (env_at t) = t"
  "check_fault (env_at t) = NoFault" "insert_fault (env_at t) = NoFault"
  by (simp_all add: env_at_def)

lemma valid_req_alice: "valid_request req_alice"
  by (simp add: valid_request_def req_alice_def js_get_def)

lemma log_ok_req_alice: "log_ok req_alice"
  by (simp add: log_ok_def log_throws_def req_alice_def js_get_def)

lemma first_alice:
  "confirm (env_at 0) req_alice db0 =
     (\<lparr>status = 201, body = ConfirmedBody ''Attendance confirmed successfully''
          (Some (new_record (env_at 0) req_alice db0))\<rparr>,
      db0\<lparr>attendance := [new_record (env_at 0) req_alice db0], attendance_seq := Suc 0\<rparr>,
      [SelectCall, InsertCall])"
proof -
  have "recent_rows db0 (js_get req_alice ''student_id'') (js_get req_alice ''room_id'')
          (now_check (env_at 0)) = []"
    by (simp add: recent_rows_def db0_def)
  from confirm_fresh [OF valid_req_alice _ _ this log_ok_req_alice] show ?thesis
    by (simp add: env_at_def db0_def)
qed

lemma db_alice_first: "db_of (confirm (env_at 0) req_alice db0) = db_alice"
  unfolding first_alice db_of_def
  by (simp add: new_record_def env_at_sel db0_def db_alice_def req_alice_def js_get_def
        js_or_def)

lemma recent_rows_db_alice:
  "recent_rows db_alice (js_get req_alice ''student_id'') (js_get req_alice ''room_id'') now =
     (if now - cooldown_ms \<le> 0 then attendance db_alice else [])"
  by (simp add: recent_rows_def in_window_def db_alice_def req_alice_def js_get_def)

section \<open>Lemmas about the other handlers\<close>

lemma update_trained_twice:
  "update_trained NoFault (snd (update_trained NoFault db i)) i = update_trained NoFault db i"
proof -
  have "(\<lambda>s. if stu_id s = i then s\<lparr>is_trained := True\<rparr> else s) \<circ>
        (\<lambda>s. if stu_id s = i then s\<lparr>is_trained := True\<rparr> else s)
        = (\<lambda>s::student. if stu_id s = i then s\<lparr>is_trained := True\<rparr> else s)"
    by (rule ext) simp
  then show ?thesis by (simp add: update_trained_def Let_def)
qed

lemma update_trained_flag:
  "s \<in> set (students (snd (update_trained NoFault db i))) \<Longrightarrow> stu_id s = i \<Longrightarrow> is_trained s"
proof -
  assume a: "s \<in> set (students (snd (update_trained NoFault db i)))" and b: "stu_id s = i"
  from a obtain x where x: "x \<in> set (students db)"
    and s: "s = (if stu_id x = i then x\<lparr>is_trained := True\<rparr> else x)"
    by (auto simp: update_trained_def Let_def)
  show ?thesis
  proof (cases "stu_id x = i")
    case True with s show ?thesis by simp
  next
    case False with s b show ?thesis by simp
  qed
qed

lemma mark_trained_ok:
  "mark_trained NoFault i db =
     (\<lparr>status = 200, body = TrainedBody ''Student marked as trained''
         (first_row (fst (case update_trained NoFault db i of (Data rows, d) \<Rightarrow> (rows, d))))\<rparr>,
      snd (update_trained NoFault db i), [UpdateCall])"
  by (simp add: mark_trained_def update_trained_def Let_def)

lemma mset_order_timestamp_desc: "mset (order_timestamp_desc rs) = mset rs"
  by (simp add: order_timestamp_desc_def)

lemma sorted_order_timestamp_desc:
  "sorted_wrt (\<lambda>a b. timestamp b \<le> timestamp a) (order_timestamp_desc rs)"
proof -
  have "sorted (map (\<lambda>r. - timestamp r) (order_timestamp_desc rs))"
    by (simp add: order_timestamp_desc_def)
  then show ?thesis by (simp add: sorted_map)
qed

lemma mset_order_name_asc: "mset (order_name_asc ss) = mset ss"
  by (simp add: order_name_asc_def)

lemma sorted_order_name_asc: "sorted (map name (order_name_asc ss))"
  by (simp add: order_name_asc_def)

lemma get_attendance_ok:
  assumes "query_fault env = NoFault" "date_conditions (tz_offset env) (q_date q) = Some c3"
  shows "get_attendance env q db =
     (\<lparr>status = 200, body = AttendanceList (order_timestamp_desc
         (filter (\<lambda>a. (if truthy (q_student_id q) then student_id a = q_student_id q else True)
                     \<and> (if truthy (q_room_id q) then room_id a = q_room_id q else True)
                     \<and> list_all (\<lambda>c. holds c a) c3) (attendance db)))\<rparr>,
      db, [SelectCall])"
  using assms
  by (simp add: get_attendance_def select_attendance_def limit_rows_def Let_def)

lemma list_students_ok:
  "list_students flt NoFault db =
     (\<lparr>status = 200, body = StudentList (order_name_asc
         (filter (\<lambda>s. case flt of None \<Rightarrow> True | Some b \<Rightarrow> is_trained s = b) (students db)))\<rparr>,
      db, [SelectCall])"
  by (simp add: list_students_def select_students_def)

subsection \<open>The day range of the date filter\<close>

text \<open>
  In a zone at or east of UTC the two filters cut out the local day of the date asked
  for; in a zone west of UTC they cut out the local day before it.
\<close>

lemma div_day_east: "0 \<le> tz \<Longrightarrow> tz < day_ms \<Longrightarrow> (D * day_ms + tz) div day_ms = D"
  by (simp add: day_ms_def)

lemma div_day_west: "- day_ms \<le> tz \<Longrightarrow> tz < 0 \<Longrightarrow> (D * day_ms + tz) div day_ms = D - 1"
proof -
  assume a: "- day_ms \<le> tz" "tz < 0"
  have "(D * day_ms + tz) = (D - 1) * day_ms + (tz + day_ms)" by (simp add: algebra_simps)
  moreover have "0 \<le> tz + day_ms" "tz + day_ms < day_ms" using a by simp_all
  ultimately show ?thesis by (simp add: day_ms_def)
qed

lemma setHours_east:
  "0 \<le> tz \<Longrightarrow> tz < day_ms \<Longrightarrow> setHours tz tod (D * day_ms) = D * day_ms + tod - tz"
  by (simp only: setHours_def div_day_east)

lemma setHours_west:
  "- day_ms \<le> tz \<Longrightarrow> tz < 0 \<Longrightarrow>
     setHours tz tod (D * day_ms) = (D - 1) * day_ms + tod - tz"
  by (simp only: setHours_def div_day_west)

lemma date_conditions_east:
  assumes "0 \<le> tz" "tz < day_ms" "new_Date (DateOnly y m d) \<noteq> None"
  shows "date_conditions tz (DateOnly y m d) =
           Some [GteTimestamp (local_day_start tz y m d), LteTimestamp (local_day_end tz y m d)]"
proof -
  from assms(3) have t: "new_Date (DateOnly y m d) = Some (days_from_civil y m d * day_ms)"
    by (simp add: new_Date_def split: if_splits)
  show ?thesis
    by (simp add: date_conditions_def t setHours_east [OF assms(1,2)]
          local_day_start_def local_day_end_def time_of_day_def)
       (simp add: day_ms_def)
qed

lemma date_conditions_west:
  assumes "- day_ms \<le> tz" "tz < 0" "new_Date (DateOnly y m d) \<noteq> None"
  shows "date_conditions tz (DateOnly y m d) =
           Some [GteTimestamp (local_day_start tz y m d - day_ms),
                 LteTimestamp (local_day_end tz y m d - day_ms)]"
proof -
  from assms(3) have t: "new_Date (DateOnly y m d) = Some (days_from_civil y m d * day_ms)"
    by (simp add: new_Date_def split: if_splits)
  show ?thesis
    by (simp add: date_conditions_def t setHours_west [OF assms(1,2)]
          local_day_start_def local_day_end_def time_of_day_def)
       (simp add: day_ms_def algebra_simps)
qed

lemma get_attendance_local_day_east:
  assumes "0 \<le> tz_offset env" "tz_offset env < day_ms" "query_fault env = NoFault"
      and "q_date q = DateOnly y m d" "new_Date (DateOnly y m d) \<noteq> None"
      and "\<not> truthy (q_student_id q)" "\<not> truthy (q_room_id q)"
  shows "response_of (get_attendance env q db) =
     \<lparr>status = 200, body = AttendanceList (order_timestamp_desc
        (filter (\<lambda>a. local_day_start (tz_offset env) y m d \<le> timestamp a
                    \<and> timestamp a \<le> local_day_end (tz_offset env) y m d) (attendance db)))\<rparr>"
proof -
  have c: "date_conditions (tz_offset env) (q_date q) =
      Some [GteTimestamp (local_day_start (tz_offset env) y m d),
            LteTimestamp (local_day_end (tz_offset env) y m d)]"
    unfolding assms(4) by (rule date_conditions_east [OF assms(1,2,5)])
  show ?thesis
    unfolding get_attendance_ok [OF assms(3) c] using assms(6,7)
    by (simp add: response_of_def)
qed

subsection \<open>The example queries, evaluated\<close>

lemmas query_eval =
  get_attendance_def select_attendance_def limit_rows_def order_timestamp_desc_def
  date_conditions_def new_Date_def setHours_def time_of_day_def utc_ms_def
  days_from_civil_def day_ms_def Let_def response_of_def db_of_def calls_of_def

lemmas school = db_school_def alice_def bob_def carol_def rec_late_def rec_next_def

lemma get_attendance_utc_example:
  "response_of (get_attendance (zone 0) query_jan10 db_school) =
     \<lparr>status = 200, body = AttendanceList [rec_late]\<rparr>"
  by (simp add: query_eval zone_def query_jan10_def school)

lemma names_sorted:
  "order_name_asc (students db_school) = [alice, bob, carol]"
  by (simp add: order_name_asc_def school less_eq_char_def less_char_def)

lemma untrained_sorted:
  "order_name_asc (filter (\<lambda>s. \<not> is_trained s) (students db_school)) = [alice, bob]"
  by (simp add: order_name_asc_def school less_eq_char_def less_char_def)

lemma room_rows:
  "response_of (get_attendance (zone 0) query_room db_school) =
     \<lparr>status = 200, body = AttendanceList [rec_next, rec_late]\<rparr>"
  by (simp add: query_eval zone_def query_room_def school)

section \<open>Validation\<close>

text \<open>
  C4. A confirmation request in which at least one of \<^verbatim>\<open>student_id\<close>,
  \<^verbatim>\<open>student_name\<close>, \<^verbatim>\<open>room_id\<close> is missing or empty is meant to be answered
  400, never 500. The log that precedes the validation converts a truthy confidence to a
  string inside the \<^verbatim>\<open>try\<close>. For the body with student S1, name Alice, no
  \<^verbatim>\<open>room_id\<close> and the confidence \<^verbatim>\<open>{"toString": 1}\<close> the conversion throws, and
  the request is answered 500 before the validation is reached, with no call to the store.
  For every request whose log is written, the answer is 400
  (lemma \<open>confirm_missing_field_when_log_ok\<close>).
\<close>

theorem confirm_missing_field_log_throws:
  "missing_or_empty (js_get req_bad_log ''room_id'')
   \<and> js_get req_bad_log ''confidence'' = Obj [(''toString'', Num 1)]
   \<and> confirm (env_at 0) req_bad_log db0 = (internal_server_error, db0, [])"
  by (simp add: confirm_def log_throws_def js_get_def req_bad_log_def missing_or_empty_def)

theorem confirm_missing_field_log_throws_witness:
  "status (response_of (confirm (env_at 0) req_bad_log db0)) = 500"
  using confirm_missing_field_log_throws
  by (simp add: response_of_def internal_server_error_def)

text \<open>
  C10. Validation comes before every access to the store: a request answered 400 has made
  no call to the store, neither a read nor a write, and leaves the store as it was.
\<close>

theorem confirm_400_no_storage:
  assumes "status (response_of (confirm env req db)) = 400"
  shows "db_of (confirm env req db) = db \<and> calls_of (confirm env req db) = []"
  using assms
    confirm_insert_status [of env "js_get req ''student_id''" "js_get req ''student_name''"
      "js_get req ''room_id''" "js_get req ''confidence''" db]
  by (auto simp: confirm_def outs Let_def internal_server_error_def select_attendance_def
           split: reply.splits if_splits fault.splits)

theorem confirm_400_no_storage_witness:
  "status (response_of (confirm (env_at 0) [] db0)) = 400
   \<and> db_of (confirm (env_at 0) [] db0) = db0 \<and> calls_of (confirm (env_at 0) [] db0) = []"
proof -
  have h: "status (response_of (confirm (env_at 0) [] db0)) = 400"
    by (simp add: confirm_def log_throws_def js_get_def response_of_def)
  from h confirm_400_no_storage [OF h] show ?thesis by simp
qed

section \<open>The cooldown\<close>

text \<open>
  C1, as the specification words it, lets two confirmations for the same student and room
  that are issued five or more minutes apart both succeed. The duplicate check keeps every
  record whose timestamp is at or after the instant five minutes before the check
  (\<^verbatim>\<open>.gte('timestamp', fiveMinutesAgo)\<close>), so a second confirmation exactly five minutes
  after the first is still rejected: the first is answered 201, the second 409, and the
  ledger keeps its single row.
\<close>

theorem confirm_exactly_five_minutes_counterexample:
  "valid_request req_alice
   \<and> status (response_of (confirm (env_at 0) req_alice db0)) = 201
   \<and> now_check (env_at 300000) - now_check (env_at 0) = cooldown_ms
   \<and> status (response_of
        (confirm (env_at 300000) req_alice (db_of (confirm (env_at 0) req_alice db0)))) = 409
   \<and> attendance (db_of
        (confirm (env_at 300000) req_alice (db_of (confirm (env_at 0) req_alice db0))))
       = attendance (db_of (confirm (env_at 0) req_alice db0))"
proof -
  have ne: "recent_rows (db_of (confirm (env_at 0) req_alice db0))
        (js_get req_alice ''student_id'') (js_get req_alice ''room_id'')
        (now_check (env_at 300000)) \<noteq> []"
    by (simp add: first_alice db_of_def recent_rows_def in_window_def new_record_def env_at_sel
          cooldown_ms_def)
  have a: "check_fault (env_at 300000) = NoFault" by (simp add: env_at_def)
  from confirm_duplicate [OF valid_req_alice a ne log_ok_req_alice] valid_req_alice
  show ?thesis by (simp add: first_alice outs env_at_sel cooldown_ms_def)
qed

text \<open>
  C1, amended. A valid confirmation request whose log is written, served by a store that
  answers both calls, for which no stored record of the same student and room has a
  timestamp at or after five minutes before the check, is answered 201 with the new
  record; the record's timestamp is the clock reading taken when the row is built, and the
  ledger grows by exactly that row. A second such confirmation for the same student and
  room succeeds as well when its check comes more than five minutes after the first
  record's timestamp, and the ledger then holds both rows; when its check comes five
  minutes or less after that timestamp, it is answered 409 and the ledger is left as it
  was.
\<close>

theorem confirm_accepts_outside_cooldown:
  assumes valid: "valid_request req"
      and logs: "log_ok req"
      and storage: "check_fault env = NoFault" "insert_fault env = NoFault"
      and fresh: "\<forall>a \<in> set (attendance db).
                    \<not> in_window (now_check env) (js_get req ''student_id'') (js_get req ''room_id'') a"
  shows "response_of (confirm env req db) =
           \<lparr>status = 201, body = ConfirmedBody ''Attendance confirmed successfully''
              (Some (new_record env req db))\<rparr>
       \<and> timestamp (new_record env req db) = now_insert env
       \<and> attendance (db_of (confirm env req db)) = attendance db @ [new_record env req db]
       \<and> students (db_of (confirm env req db)) = students db
       \<and> (\<forall>env2 req2.
            valid_request req2 \<and> log_ok req2
            \<and> js_get req2 ''student_id'' = js_get req ''student_id''
            \<and> js_get req2 ''room_id'' = js_get req ''room_id''
            \<and> check_fault env2 = NoFault \<and> insert_fault env2 = NoFault
            \<and> now_check env \<le> now_insert env
            \<and> cooldown_ms < now_check env2 - now_insert env
            \<longrightarrow> response_of (confirm env2 req2 (db_of (confirm env req db))) =
                  \<lparr>status = 201, body = ConfirmedBody ''Attendance confirmed successfully''
                     (Some (new_record env2 req2 (db_of (confirm env req db))))\<rparr>
                \<and> attendance (db_of (confirm env2 req2 (db_of (confirm env req db)))) =
                    attendance db @ [new_record env req db,
                                     new_record env2 req2 (db_of (confirm env req db))])
       \<and> (\<forall>env2 req2.
            valid_request req2 \<and> log_ok req2
            \<and> js_get req2 ''student_id'' = js_get req ''student_id''
            \<and> js_get req2 ''room_id'' = js_get req ''room_id''
            \<and> check_fault env2 = NoFault
            \<and> now_check env2 - now_insert env \<le> cooldown_ms
            \<longrightarrow> response_of (confirm env2 req2 (db_of (confirm env req db))) =
                  \<lparr>status = 409, body = DuplicateBody ''Attendance already recorded recently''
                     (first_row (order_timestamp_desc
                        (recent_rows (db_of (confirm env req db)) (js_get req ''student_id'')
                           (js_get req ''room_id'') (now_check env2))))\<rparr>
                \<and> new_record env req db \<in> set (recent_rows (db_of (confirm env req db))
                      (js_get req ''student_id'') (js_get req ''room_id'') (now_check env2))
                \<and> db_of (confirm env2 req2 (db_of (confirm env req db)))
                    = db_of (confirm env req db))"
proof -
  let ?sid = "js_get req ''student_id''" and ?rid = "js_get req ''room_id''"
  let ?r1 = "new_record env req db"
  let ?db1 = "db\<lparr>attendance := attendance db @ [?r1], attendance_seq := Suc (attendance_seq db)\<rparr>"
  have e1: "recent_rows db ?sid ?rid (now_check env) = []"
    using fresh by (simp add: recent_rows_def filter_empty_conv)
  note one = confirm_fresh [OF valid storage e1 logs]
  have db1: "db_of (confirm env req db) = ?db1" using one by (simp add: db_of_def)
  have two: "response_of (confirm env2 req2 ?db1) =
                  \<lparr>status = 201, body = ConfirmedBody ''Attendance confirmed successfully''
                     (Some (new_record env2 req2 ?db1))\<rparr>
             \<and> attendance (db_of (confirm env2 req2 ?db1)) =
                    attendance db @ [?r1, new_record env2 req2 ?db1]"
    if h: "valid_request req2" "log_ok req2"
          "js_get req2 ''student_id'' = ?sid" "js_get req2 ''room_id'' = ?rid"
          "check_fault env2 = NoFault" "insert_fault env2 = NoFault"
          "now_check env \<le> now_insert env" "cooldown_ms < now_check env2 - now_insert env"
    for env2 req2
  proof -
    have le: "now_check env \<le> now_check env2" using h(7,8) by (simp add: cooldown_ms_def)
    have old: "recent_rows db ?sid ?rid (now_check env2) = []"
      using recent_rows_later [OF e1 le] .
    have out: "\<not> in_window (now_check env2) ?sid ?rid ?r1"
      using h(8) by (simp add: new_record_in_window)
    have e2: "recent_rows ?db1 (js_get req2 ''student_id'') (js_get req2 ''room_id'')
                (now_check env2) = []"
      using old out h(3,4) by (simp add: recent_rows_append)
    from confirm_fresh [OF h(1) h(5) h(6) e2 h(2)] show ?thesis by (simp add: outs)
  qed
  have three: "response_of (confirm env2 req2 ?db1) =
                  \<lparr>status = 409, body = DuplicateBody ''Attendance already recorded recently''
                     (first_row (order_timestamp_desc
                        (recent_rows ?db1 ?sid ?rid (now_check env2))))\<rparr>
             \<and> ?r1 \<in> set (recent_rows ?db1 ?sid ?rid (now_check env2))
             \<and> db_of (confirm env2 req2 ?db1) = ?db1"
    if h: "valid_request req2" "log_ok req2"
          "js_get req2 ''student_id'' = ?sid" "js_get req2 ''room_id'' = ?rid"
          "check_fault env2 = NoFault" "now_check env2 - now_insert env \<le> cooldown_ms"
    for env2 req2
  proof -
    have win: "in_window (now_check env2) ?sid ?rid ?r1"
      using h(6) by (simp add: new_record_in_window)
    then have mem: "?r1 \<in> set (recent_rows ?db1 ?sid ?rid (now_check env2))"
      by (simp add: recent_rows_append)
    then have ne: "recent_rows ?db1 (js_get req2 ''student_id'') (js_get req2 ''room_id'')
                (now_check env2) \<noteq> []"
      unfolding h(3,4) by auto
    from confirm_duplicate [OF h(1) h(5) ne h(2)] mem show ?thesis
      unfolding h(3,4) by (simp add: outs)
  qed
  have p1: "response_of (confirm env req db) =
           \<lparr>status = 201, body = ConfirmedBody ''Attendance confirmed successfully'' (Some ?r1)\<rparr>"
    using one by (simp add: outs)
  have p2: "timestamp ?r1 = now_insert env" by (simp add: new_record_def)
  have p3: "attendance (db_of (confirm env req db)) = attendance db @ [?r1]"
           "students (db_of (confirm env req db)) = students db"
    using db1 by simp_all
  show ?thesis unfolding db1 [symmetric]
    using p1 p2 p3 two [folded db1] three [folded db1] by blast
qed

theorem confirm_accepts_outside_cooldown_witness:
  "valid_request req_alice
   \<and> log_ok req_alice
   \<and> attendance db0 = []
   \<and> cooldown_ms < now_check (env_at 300001) - now_insert (env_at 0)
   \<and> now_check (env_at 300000) - now_insert (env_at 0) \<le> cooldown_ms
   \<and> status (response_of (confirm (env_at 0) req_alice db0)) = 201
   \<and> status (response_of
        (confirm (env_at 300001) req_alice (db_of (confirm (env_at 0) req_alice db0)))) = 201
   \<and> map timestamp (attendance (db_of
        (confirm (env_at 300001) req_alice (db_of (confirm (env_at 0) req_alice db0)))))
       = [0, 300001]
   \<and> status (response_of
        (confirm (env_at 300000) req_alice (db_of (confirm (env_at 0) req_alice db0)))) = 409
   \<and> db_of (confirm (env_at 300000) req_alice (db_of (confirm (env_at 0) req_alice db0)))
       = db_of (confirm (env_at 0) req_alice db0)"
proof -
  let ?db1 = "db_of (confirm (env_at 0) req_alice db0)"
  have e: "attendance db0 = []" by (simp add: db0_def)
  have fresh: "\<forall>a \<in> set (attendance db0).
         \<not> in_window (now_check (env_at 0)) (js_get req_alice ''student_id'')
              (js_get req_alice ''room_id'') a"
    by (simp add: db0_def)
  have far: "cooldown_ms < now_check (env_at 300001) - now_insert (env_at 0)"
    by (simp add: env_at_sel cooldown_ms_def)
  have near: "now_check (env_at 300000) - now_insert (env_at 0) \<le> cooldown_ms"
    by (simp add: env_at_sel cooldown_ms_def)
  have clock: "now_check (env_at 0) \<le> now_insert (env_at 0)" by (simp add: env_at_sel)
  note inst = confirm_accepts_outside_cooldown
    [OF valid_req_alice log_ok_req_alice env_at_sel(3) env_at_sel(4) fresh]
  from inst have a: "status (response_of (confirm (env_at 0) req_alice db0)) = 201"
    by simp
  note later = inst [THEN conjunct2, THEN conjunct2, THEN conjunct2, THEN conjunct2,
      THEN conjunct1, THEN spec [of _ "env_at 300001"], THEN spec [of _ req_alice], THEN mp]
  have b: "response_of (confirm (env_at 300001) req_alice ?db1) =
             \<lparr>status = 201, body = ConfirmedBody ''Attendance confirmed successfully''
                (Some (new_record (env_at 300001) req_alice ?db1))\<rparr>
         \<and> attendance (db_of (confirm (env_at 300001) req_alice ?db1)) =
             attendance db0 @ [new_record (env_at 0) req_alice db0,
                               new_record (env_at 300001) req_alice ?db1]"
    by (rule later) (intro conjI valid_req_alice log_ok_req_alice refl env_at_sel clock far)
  note sooner = inst [THEN conjunct2, THEN conjunct2, THEN conjunct2, THEN conjunct2,
      THEN conjunct2, THEN spec [of _ "env_at 300000"], THEN spec [of _ req_alice], THEN mp]
  have c: "response_of (confirm (env_at 300000) req_alice ?db1) =
             \<lparr>status = 409, body = DuplicateBody ''Attendance already recorded recently''
                (first_row (order_timestamp_desc
                   (recent_rows ?db1 (js_get req_alice ''student_id'')
                      (js_get req_alice ''room_id'') (now_check (env_at 300000)))))\<rparr>
         \<and> new_record (env_at 0) req_alice db0 \<in> set (recent_rows ?db1
               (js_get req_alice ''student_id'') (js_get req_alice ''room_id'')
               (now_check (env_at 300000)))
         \<and> db_of (confirm (env_at 300000) req_alice ?db1) = ?db1"
    by (rule sooner) (intro conjI valid_req_alice log_ok_req_alice refl env_at_sel near)
  from b have b1: "status (response_of (confirm (env_at 300001) req_alice ?db1)) = 201"
    by simp
  from b e have b2: "map timestamp (attendance (db_of (confirm (env_at 300001) req_alice ?db1)))
       = [0, 300001]"
    by (simp add: new_record_def env_at_sel)
  from c have c1: "status (response_of (confirm (env_at 300000) req_alice ?db1)) = 409"
    by simp
  from c have c2: "db_of (confirm (env_at 300000) req_alice ?db1) = ?db1" by (elim conjE)
  show ?thesis
    by (intro conjI valid_req_alice log_ok_req_alice e far near a b1 b2 c1 c2)
qed

text \<open>
  C2, as the specification words it, makes the second of any two confirmations for the
  same student and room issued less than five minutes apart fail with 409. The window is
  measured from the stored records, not from the earlier call: with Alice recorded at the
  instant 0, a call at 299 s is answered 409 and a call two seconds later, at 301 s, is
  answered 201 and stores a second row. And when the duplicate-check read of the second
  call is answered with an error, the check is skipped: one second after Alice was
  recorded the second call is answered 201 and stores a second row.
\<close>

theorem confirm_pair_second_accepted_counterexample:
  "status (response_of (confirm (env_at 299000) req_alice db_alice)) = 409
   \<and> db_of (confirm (env_at 299000) req_alice db_alice) = db_alice
   \<and> now_check (env_at 301000) - now_check (env_at 299000) < cooldown_ms
   \<and> status (response_of (confirm (env_at 301000) req_alice
        (db_of (confirm (env_at 299000) req_alice db_alice)))) = 201
   \<and> map timestamp (attendance (db_of (confirm (env_at 301000) req_alice
        (db_of (confirm (env_at 299000) req_alice db_alice))))) = [0, 301000]
   \<and> db_of (confirm (env_at 0) req_alice db0) = db_alice
   \<and> now_check env_check_down - now_check (env_at 0) < cooldown_ms
   \<and> check_fault env_check_down = Rejects ''fetch failed''
   \<and> status (response_of (confirm env_check_down req_alice
        (db_of (confirm (env_at 0) req_alice db0)))) = 201
   \<and> map timestamp (attendance (db_of (confirm env_check_down req_alice
        (db_of (confirm (env_at 0) req_alice db0))))) = [0, 1000]"
proof -
  have ne: "recent_rows db_alice (js_get req_alice ''student_id'') (js_get req_alice ''room_id'')
        (now_check (env_at 299000)) \<noteq> []"
    by (simp add: recent_rows_db_alice env_at_sel cooldown_ms_def) (simp add: db_alice_def)
  note first = confirm_duplicate [OF valid_req_alice env_at_sel(3) ne log_ok_req_alice]
  have a: "status (response_of (confirm (env_at 299000) req_alice db_alice)) = 409"
    and b: "db_of (confirm (env_at 299000) req_alice db_alice) = db_alice"
    using first by (simp_all add: outs)
  have c: "now_check (env_at 301000) - now_check (env_at 299000) < cooldown_ms"
    by (simp add: env_at_sel cooldown_ms_def)
  have em: "recent_rows db_alice (js_get req_alice ''student_id'') (js_get req_alice ''room_id'')
        (now_check (env_at 301000)) = []"
    by (simp add: recent_rows_db_alice env_at_sel cooldown_ms_def)
  note second = confirm_fresh [OF valid_req_alice env_at_sel(3) env_at_sel(4) em log_ok_req_alice]
  have d: "status (response_of (confirm (env_at 301000) req_alice db_alice)) = 201"
    using second by (simp add: outs)
  have e: "map timestamp (attendance (db_of (confirm (env_at 301000) req_alice db_alice)))
      = [0, 301000]"
    using second by (simp add: outs new_record_def env_at_sel db_alice_def)
  have f: "check_fault env_check_down = Rejects ''fetch failed''"
    and i: "insert_fault env_check_down = NoFault"
    and g: "now_check env_check_down - now_check (env_at 0) < cooldown_ms"
    by (simp_all add: env_check_down_def env_at_sel cooldown_ms_def)
  from confirm_check_rejected [OF valid_req_alice f log_ok_req_alice]
    confirm_insert_ok [OF i, of req_alice]
  have third: "confirm env_check_down req_alice db_alice =
     (\<lparr>status = 201, body = ConfirmedBody ''Attendance confirmed successfully''
          (Some (new_record env_check_down req_alice db_alice))\<rparr>,
      db_alice\<lparr>attendance := attendance db_alice @ [new_record env_check_down req_alice db_alice],
         attendance_seq := Suc (attendance_seq db_alice)\<rparr>,
      [SelectCall, InsertCall])"
    by simp
  have h: "status (response_of (confirm env_check_down req_alice db_alice)) = 201"
    using third by (simp add: outs)
  have k: "map timestamp (attendance (db_of (confirm env_check_down req_alice db_alice)))
      = [0, 1000]"
    using third by (simp add: outs new_record_def env_check_down_def db_alice_def)
  show ?thesis
    unfolding b db_alice_first
    by (intro conjI a refl c d e f g h k)
qed

text \<open>
  C2, amended. Two confirmations for the same student and room, the second checked less
  than five minutes after the first, its duplicate-check read answered by the store. The
  ledger gains at most one row from the pair. Once the first call has recorded attendance
  and the second request is valid and its log is written, the second call fails with 409;
  its body carries a conflicting record, a stored record of the pair within the window,
  which is the first call's record when the first check was answered too and the second
  call comes after it; the second call makes one read and no write, and the ledger has
  gained exactly one row.
\<close>

theorem confirm_rejects_within_cooldown:
  assumes pair: "js_get req2 ''student_id'' = js_get req1 ''student_id''"
                "js_get req2 ''room_id'' = js_get req1 ''room_id''"
      and clock: "now_check env1 \<le> now_insert env1"
      and close: "now_check env2 - now_check env1 < cooldown_ms"
      and answered: "check_fault env2 = NoFault"
  shows "length (attendance (db_of (confirm env2 req2 (db_of (confirm env1 req1 db)))))
           \<le> Suc (length (attendance db))
       \<and> (status (response_of (confirm env1 req1 db)) = 201 \<and> valid_request req2
            \<and> log_ok req2 \<longrightarrow>
            status (response_of (confirm env2 req2 (db_of (confirm env1 req1 db)))) = 409
          \<and> (\<exists>r. body (response_of (confirm env2 req2 (db_of (confirm env1 req1 db)))) =
                    DuplicateBody ''Attendance already recorded recently'' (Some r)
                 \<and> r \<in> set (attendance (db_of (confirm env1 req1 db)))
                 \<and> in_window (now_check env2) (js_get req2 ''student_id'')
                      (js_get req2 ''room_id'') r)
          \<and> (check_fault env1 = NoFault \<and> now_check env1 \<le> now_check env2 \<longrightarrow>
               body (response_of (confirm env2 req2 (db_of (confirm env1 req1 db)))) =
                 DuplicateBody ''Attendance already recorded recently''
                   (Some (new_record env1 req1 db)))
          \<and> db_of (confirm env2 req2 (db_of (confirm env1 req1 db)))
               = db_of (confirm env1 req1 db)
          \<and> calls_of (confirm env2 req2 (db_of (confirm env1 req1 db))) = [SelectCall]
          \<and> length (attendance (db_of (confirm env2 req2 (db_of (confirm env1 req1 db)))))
               = Suc (length (attendance db)))"
proof (intro conjI impI)
  show "length (attendance (db_of (confirm env2 req2 (db_of (confirm env1 req1 db)))))
           \<le> Suc (length (attendance db))"
    by (rule confirm_pair_one_row [OF pair clock close answered])
next
  assume h: "status (response_of (confirm env1 req1 db)) = 201 \<and> valid_request req2
            \<and> log_ok req2"
  then have first: "status (response_of (confirm env1 req1 db)) = 201"
    and valid2: "valid_request req2" and logs2: "log_ok req2" by simp_all
  let ?sid = "js_get req1 ''student_id''" and ?rid = "js_get req1 ''room_id''"
  let ?r1 = "new_record env1 req1 db"
  let ?db1 = "db_of (confirm env1 req1 db)"
  let ?rows = "recent_rows ?db1 (js_get req2 ''student_id'') (js_get req2 ''room_id'')
                 (now_check env2)"
  from confirm_201_iff [OF first]
  have fresh1: "check_fault env1 = NoFault \<longrightarrow> recent_rows db ?sid ?rid (now_check env1) = []"
    and l1: "length (attendance ?db1) = Suc (length (attendance db))"
    by (simp_all add: db_of_def)
  note rr = confirm_second_in_window [OF pair first clock close]
  then have ne: "?rows \<noteq> []" by simp
  note dup = confirm_duplicate [OF valid2 answered ne logs2]
  from first_row_order [OF ne] obtain r where
    r: "first_row (order_timestamp_desc ?rows) = Some r" and rin: "r \<in> set ?rows"
    by blast
  show "status (response_of (confirm env2 req2 ?db1)) = 409" using dup by (simp add: outs)
  show "\<exists>r. body (response_of (confirm env2 req2 ?db1)) =
              DuplicateBody ''Attendance already recorded recently'' (Some r)
           \<and> r \<in> set (attendance ?db1)
           \<and> in_window (now_check env2) (js_get req2 ''student_id'') (js_get req2 ''room_id'') r"
  proof (intro exI conjI)
    show "body (response_of (confirm env2 req2 ?db1)) =
              DuplicateBody ''Attendance already recorded recently'' (Some r)"
      using dup r by (simp add: outs)
    show "r \<in> set (attendance ?db1)" using rin by (simp only: set_recent_rows)
    show "in_window (now_check env2) (js_get req2 ''student_id'') (js_get req2 ''room_id'') r"
      using rin by (simp only: set_recent_rows)
  qed
  show "db_of (confirm env2 req2 ?db1) = ?db1" using dup by (simp add: outs)
  then show "length (attendance (db_of (confirm env2 req2 ?db1))) = Suc (length (attendance db))"
    using l1 by simp
  show "calls_of (confirm env2 req2 ?db1) = [SelectCall]" using dup by (simp add: outs)
  show "body (response_of (confirm env2 req2 ?db1)) =
          DuplicateBody ''Attendance already recorded recently'' (Some ?r1)"
    if "check_fault env1 = NoFault \<and> now_check env1 \<le> now_check env2"
  proof -
    from fresh1 that have "recent_rows db ?sid ?rid (now_check env2) = []"
      using recent_rows_later by blast
    with rr have "?rows = [?r1]" by simp
    with dup show ?thesis by (simp add: outs order_timestamp_desc_def first_row_def)
  qed
qed

theorem confirm_rejects_within_cooldown_witness:
  "status (response_of (confirm (env_at 0) req_alice db0)) = 201
   \<and> valid_request req_alice
   \<and> log_ok req_alice
   \<and> now_check (env_at 1000) - now_check (env_at 0) < cooldown_ms
   \<and> response_of (confirm (env_at 1000) req_alice (db_of (confirm (env_at 0) req_alice db0))) =
       \<lparr>status = 409, body = DuplicateBody ''Attendance already recorded recently''
          (Some \<lparr>att_id = 0, student_id = Str ''S1'', student_name = Str ''Alice'',
                 room_id = Str ''R1'', confidence = Num (185 / 2), timestamp = 0\<rparr>)\<rparr>
   \<and> calls_of (confirm (env_at 1000) req_alice (db_of (confirm (env_at 0) req_alice db0)))
       = [SelectCall]
   \<and> length (attendance (db_of
        (confirm (env_at 1000) req_alice (db_of (confirm (env_at 0) req_alice db0))))) = 1"
proof -
  have first: "status (response_of (confirm (env_at 0) req_alice db0)) = 201"
    by (simp add: first_alice response_of_def)
  have clock: "now_check (env_at 0) \<le> now_insert (env_at 0)" by (simp add: env_at_sel)
  have close: "now_check (env_at 1000) - now_check (env_at 0) < cooldown_ms"
    by (simp add: env_at_sel cooldown_ms_def)
  have f0: "check_fault (env_at 0) = NoFault \<and> now_check (env_at 0) \<le> now_check (env_at 1000)"
    by (simp add: env_at_sel)
  have nr: "new_record (env_at 0) req_alice db0 =
      \<lparr>att_id = 0, student_id = Str ''S1'', student_name = Str ''Alice'',
        room_id = Str ''R1'', confidence = Num (185 / 2), timestamp = 0\<rparr>"
    by (simp add: new_record_def env_at_sel req_alice_def db0_def js_get_def js_or_def)
  have e: "attendance db0 = []" by (simp add: db0_def)
  note inst = confirm_rejects_within_cooldown [OF refl refl clock close env_at_sel(3),
      of req_alice db0, THEN conjunct2, THEN mp, OF conjI, OF first conjI,
      OF valid_req_alice log_ok_req_alice]
  from inst have a: "status (response_of (confirm (env_at 1000) req_alice
        (db_of (confirm (env_at 0) req_alice db0)))) = 409" by (rule conjunct1)
  from inst f0 have b: "body (response_of (confirm (env_at 1000) req_alice
        (db_of (confirm (env_at 0) req_alice db0)))) =
        DuplicateBody ''Attendance already recorded recently''
          (Some (new_record (env_at 0) req_alice db0))" by (elim conjE impE) simp_all
  from inst have c: "calls_of (confirm (env_at 1000) req_alice
        (db_of (confirm (env_at 0) req_alice db0))) = [SelectCall]" by (elim conjE)
  from inst have "length (attendance (db_of
        (confirm (env_at 1000) req_alice (db_of (confirm (env_at 0) req_alice db0)))))
        = Suc (length (attendance db0))"
    by (elim conjE)
  then have d: "length (attendance (db_of
        (confirm (env_at 1000) req_alice (db_of (confirm (env_at 0) req_alice db0))))) = 1"
    by (simp add: e)
  have r: "response_of (confirm (env_at 1000) req_alice (db_of (confirm (env_at 0) req_alice db0))) =
       \<lparr>status = 409, body = DuplicateBody ''Attendance already recorded recently''
          (Some (new_record (env_at 0) req_alice db0))\<rparr>"
    using a b
    by (cases "response_of (confirm (env_at 1000) req_alice (db_of (confirm (env_at 0) req_alice db0)))")
       simp
  show ?thesis using r unfolding nr by (intro conjI first valid_req_alice log_ok_req_alice close c d)
qed

section \<open>Failures of the store\<close>

text \<open>
  C3, as the specification words it, turns every failure of the store into a 500 with no
  record inserted. When the duplicate-check read is answered with an error, the handler
  only logs it and goes on to the insert: here the read fails one second after Alice was
  recorded, the request is answered 201 and a second row for the same student and room is
  stored.
\<close>

theorem confirm_check_failure_counterexample:
  "valid_request req_alice
   \<and> check_fault env_check_down = Rejects ''fetch failed''
   \<and> status (response_of (confirm env_check_down req_alice
        (db_of (confirm (env_at 0) req_alice db0)))) = 201
   \<and> map timestamp (attendance (db_of (confirm env_check_down req_alice
        (db_of (confirm (env_at 0) req_alice db0))))) = [0, 1000]"
proof -
  have f: "check_fault env_check_down = Rejects ''fetch failed''"
    and i: "insert_fault env_check_down = NoFault"
    by (simp_all add: env_check_down_def)
  from confirm_check_rejected [OF valid_req_alice f log_ok_req_alice]
    confirm_insert_ok [OF i, of req_alice]
  have "confirm env_check_down req_alice (db_of (confirm (env_at 0) req_alice db0)) =
     (\<lparr>status = 201, body = ConfirmedBody ''Attendance confirmed successfully''
          (Some (new_record env_check_down req_alice (db_of (confirm (env_at 0) req_alice db0))))\<rparr>,
      (db_of (confirm (env_at 0) req_alice db0))
        \<lparr>attendance := attendance (db_of (confirm (env_at 0) req_alice db0))
            @ [new_record env_check_down req_alice (db_of (confirm (env_at 0) req_alice db0))],
         attendance_seq := Suc (attendance_seq (db_of (confirm (env_at 0) req_alice db0)))\<rparr>,
      [SelectCall, InsertCall])"
    by simp
  with valid_req_alice f show ?thesis
    by (simp add: outs first_alice new_record_def env_at_sel env_check_down_def)
qed

text \<open>
  C3, amended. For a valid confirmation request whose log is written: a response 500 never
  comes with an insert; a duplicate-check read that throws ends the request with 500 after
  that one call; a duplicate-check read answered with an error is skipped over and the
  insert is attempted, so the request ends 201 with the new row when the write succeeds
  and 500 with the ledger as it was when the write is rejected or throws; when the check
  found nothing, a write that is rejected or throws ends the request with 500 and the
  ledger as it was. No call to the store is made twice.
\<close>

theorem confirm_storage_failure:
  assumes valid: "valid_request req" and logs: "log_ok req"
  shows "(status (response_of (confirm env req db)) = 500 \<longrightarrow> db_of (confirm env req db) = db)
       \<and> (check_fault env = Throws \<longrightarrow>
            confirm env req db = (internal_server_error, db, [SelectCall]))
       \<and> (\<forall>m. check_fault env = Rejects m \<and> insert_fault env = NoFault \<longrightarrow>
            confirm env req db =
              (\<lparr>status = 201, body = ConfirmedBody ''Attendance confirmed successfully''
                  (Some (new_record env req db))\<rparr>,
               db\<lparr>attendance := attendance db @ [new_record env req db],
                  attendance_seq := Suc (attendance_seq db)\<rparr>,
               [SelectCall, InsertCall]))
       \<and> (\<forall>m e. check_fault env = Rejects m \<and> insert_fault env = Rejects e \<longrightarrow>
            confirm env req db =
              (\<lparr>status = 500, body = ErrorBody e\<rparr>, db, [SelectCall, InsertCall]))
       \<and> (\<forall>m. check_fault env = Rejects m \<and> insert_fault env = Throws \<longrightarrow>
            confirm env req db = (internal_server_error, db, [SelectCall, InsertCall]))
       \<and> (\<forall>e. check_fault env = NoFault \<and> insert_fault env = Rejects e
              \<and> recent_rows db (js_get req ''student_id'') (js_get req ''room_id'')
                    (now_check env) = [] \<longrightarrow>
            confirm env req db =
              (\<lparr>status = 500, body = ErrorBody e\<rparr>, db, [SelectCall, InsertCall]))
       \<and> (check_fault env = NoFault \<and> insert_fault env = Throws
              \<and> recent_rows db (js_get req ''student_id'') (js_get req ''room_id'')
                    (now_check env) = [] \<longrightarrow>
            confirm env req db = (internal_server_error, db, [SelectCall, InsertCall]))
       \<and> distinct (calls_of (confirm env req db))"
proof (intro conjI allI impI)
  show "db_of (confirm env req db) = db" if "status (response_of (confirm env req db)) = 500"
    using that confirm_db_cases [of env req db] by auto
  show "confirm env req db = (internal_server_error, db, [SelectCall])"
    if "check_fault env = Throws"
    using confirm_check_thrown [OF valid that logs] .
  show "confirm env req db =
              (\<lparr>status = 201, body = ConfirmedBody ''Attendance confirmed successfully''
                  (Some (new_record env req db))\<rparr>,
               db\<lparr>attendance := attendance db @ [new_record env req db],
                  attendance_seq := Suc (attendance_seq db)\<rparr>,
               [SelectCall, InsertCall])"
    if h: "check_fault env = Rejects m \<and> insert_fault env = NoFault" for m
  proof -
    from h have c: "check_fault env = Rejects m" and i: "insert_fault env = NoFault" by simp_all
    show ?thesis
      unfolding confirm_check_rejected [OF valid c logs] by (rule confirm_insert_ok [OF i])
  qed
  show "confirm env req db = (\<lparr>status = 500, body = ErrorBody e\<rparr>, db, [SelectCall, InsertCall])"
    if h: "check_fault env = Rejects m \<and> insert_fault env = Rejects e" for m e
  proof -
    from h have c: "check_fault env = Rejects m" and i: "insert_fault env = Rejects e"
      by simp_all
    show ?thesis
      unfolding confirm_check_rejected [OF valid c logs] by (rule confirm_insert_rejected [OF i])
  qed
  show "confirm env req db = (internal_server_error, db, [SelectCall, InsertCall])"
    if h: "check_fault env = Rejects m \<and> insert_fault env = Throws" for m
  proof -
    from h have c: "check_fault env = Rejects m" and i: "insert_fault env = Throws" by simp_all
    show ?thesis
      unfolding confirm_check_rejected [OF valid c logs] by (rule confirm_insert_thrown [OF i])
  qed
  show "confirm env req db = (\<lparr>status = 500, body = ErrorBody e\<rparr>, db, [SelectCall, InsertCall])"
    if h: "check_fault env = NoFault \<and> insert_fault env = Rejects e
              \<and> recent_rows db (js_get req ''student_id'') (js_get req ''room_id'')
                    (now_check env) = []" for e
  proof -
    from h have c: "check_fault env = NoFault" and i: "insert_fault env = Rejects e"
      and r: "recent_rows db (js_get req ''student_id'') (js_get req ''room_id'')
                (now_check env) = []" by simp_all
    show ?thesis
      unfolding confirm_reaches_insert [OF valid logs c r] by (rule confirm_insert_rejected [OF i])
  qed
  show "confirm env req db = (internal_server_error, db, [SelectCall, InsertCall])"
    if h: "check_fault env = NoFault \<and> insert_fault env = Throws
              \<and> recent_rows db (js_get req ''student_id'') (js_get req ''room_id'')
                    (now_check env) = []"
  proof -
    from h have c: "check_fault env = NoFault" and i: "insert_fault env = Throws"
      and r: "recent_rows db (js_get req ''student_id'') (js_get req ''room_id'')
                (now_check env) = []" by simp_all
    show ?thesis
      unfolding confirm_reaches_insert [OF valid logs c r] by (rule confirm_insert_thrown [OF i])
  qed
  show "distinct (calls_of (confirm env req db))"
    using confirm_calls [of env req db] by auto
qed

theorem confirm_storage_failure_witness:
  "valid_request req_alice
   \<and> log_ok req_alice
   \<and> check_fault env_check_throws = Throws
   \<and> confirm env_check_throws req_alice db0 = (internal_server_error, db0, [SelectCall])
   \<and> check_fault env_check_down = Rejects ''fetch failed''
   \<and> insert_fault env_check_down = NoFault
   \<and> status (response_of (confirm env_check_down req_alice db0)) = 201
   \<and> length (attendance (db_of (confirm env_check_down req_alice db0))) = 1
   \<and> check_fault env_both_down = Rejects ''fetch failed''
   \<and> insert_fault env_both_down = Rejects ''insert refused''
   \<and> confirm env_both_down req_alice db0 =
       (\<lparr>status = 500, body = ErrorBody ''insert refused''\<rparr>, db0, [SelectCall, InsertCall])
   \<and> check_fault env_insert_down = NoFault
   \<and> insert_fault env_insert_down = Rejects ''fetch failed''
   \<and> confirm env_insert_down req_alice db0 =
       (\<lparr>status = 500, body = ErrorBody ''fetch failed''\<rparr>, db0, [SelectCall, InsertCall])"
proof -
  note inst = confirm_storage_failure [OF valid_req_alice log_ok_req_alice]
  have t: "check_fault env_check_throws = Throws" by (simp add: env_check_throws_def)
  note a = inst [of env_check_throws db0, THEN conjunct2, THEN conjunct1, THEN mp, OF t]
  have r: "check_fault env_check_down = Rejects ''fetch failed''"
    and ri: "insert_fault env_check_down = NoFault"
    by (simp_all add: env_check_down_def)
  note b0 = inst [of env_check_down db0, THEN conjunct2, THEN conjunct2, THEN conjunct1,
      THEN spec [of _ "''fetch failed''"], THEN mp, OF conjI, OF r ri]
  have b1: "status (response_of (confirm env_check_down req_alice db0)) = 201"
    unfolding b0 by (simp add: outs)
  have b2: "length (attendance (db_of (confirm env_check_down req_alice db0))) = 1"
    unfolding b0 by (simp add: outs db0_def)
  have c: "check_fault env_both_down = Rejects ''fetch failed''"
    and ci: "insert_fault env_both_down = Rejects ''insert refused''"
    by (simp_all add: env_both_down_def)
  note d = inst [of env_both_down db0, THEN conjunct2, THEN conjunct2, THEN conjunct2,
      THEN conjunct1, THEN spec [of _ "''fetch failed''"],
      THEN spec [of _ "''insert refused''"], THEN mp, OF conjI, OF c ci]
  have e: "check_fault env_insert_down = NoFault"
    and ei: "insert_fault env_insert_down = Rejects ''fetch failed''"
    by (simp_all add: env_insert_down_def)
  have em: "recent_rows db0 (js_get req_alice ''student_id'') (js_get req_alice ''room_id'')
              (now_check env_insert_down) = []"
    by (simp add: recent_rows_def db0_def)
  note f = inst [of env_insert_down db0, THEN conjunct2, THEN conjunct2, THEN conjunct2,
      THEN conjunct2, THEN conjunct2, THEN conjunct1, THEN spec [of _ "''fetch failed''"],
      THEN mp, OF conjI, OF e conjI, OF ei em]
  show ?thesis
    by (intro conjI valid_req_alice log_ok_req_alice t a r ri b1 b2 c ci d e ei f)
qed

section \<open>The stored confidence\<close>

text \<open>
  C9. When the \<^verbatim>\<open>confidence\<close> field of a confirmation request is falsy (absent,
  \<^verbatim>\<open>null\<close>, 0, the empty string), the record that is stored and returned has
  confidence \<^verbatim>\<open>null\<close>; a confidence of exactly 0 is recorded as \<^verbatim>\<open>null\<close>.
\<close>

theorem confirm_falsy_confidence_null:
  assumes "status (response_of (confirm env req db)) = 201"
      and "\<not> truthy (js_get req ''confidence'')"
  shows "\<exists>r. body (response_of (confirm env req db)) =
               ConfirmedBody ''Attendance confirmed successfully'' (Some r)
           \<and> attendance (db_of (confirm env req db)) = attendance db @ [r]
           \<and> confidence r = Null"
proof -
  from assms(2) have "confidence (new_record env req db) = Null"
    by (simp add: new_record_def js_or_def)
  with confirm_201_iff [OF assms(1)] show ?thesis by (simp add: outs)
qed

theorem confirm_falsy_confidence_null_witness:
  "status (response_of (confirm (env_at 0) req_zero_confidence db0)) = 201
   \<and> js_get req_zero_confidence ''confidence'' = Num 0
   \<and> \<not> truthy (js_get req_zero_confidence ''confidence'')
   \<and> map confidence (attendance (db_of (confirm (env_at 0) req_zero_confidence db0))) = [Null]"
proof -
  have a: "status (response_of (confirm (env_at 0) req_zero_confidence db0)) = 201"
    by (simp add: confirm_eval req_zero_confidence_def env_at_def db0_def)
  have z: "js_get req_zero_confidence ''confidence'' = Num 0"
    by (simp add: req_zero_confidence_def js_get_def)
  then have b: "\<not> truthy (js_get req_zero_confidence ''confidence'')" by simp
  from confirm_falsy_confidence_null [OF a b] obtain r where
    "attendance (db_of (confirm (env_at 0) req_zero_confidence db0)) = attendance db0 @ [r]"
    "confidence r = Null" by blast
  with a z b show ?thesis by (simp add: db0_def)
qed

section \<open>The date filter\<close>

text \<open>
  C5. The attendance query for a date is meant to return exactly the records of that local
  day, from 00:00:00.000 to 23:59:59.999 local time. The handler reads the date-only string
  as midnight UTC and then sets the local hours, so on a server west of UTC it lands on the
  day before. On a server five hours west of UTC the query for 2024-01-10 filters from
  2024-01-09T05:00:00.000Z to 2024-01-10T04:59:59.999Z: the record of
  2024-01-10T23:59:00Z, which lies within the local day 2024-01-10 of that zone, is
  stored but not returned.
\<close>

theorem get_attendance_west_of_utc:
  "date_conditions (tz_offset (zone (- 5))) (q_date query_jan10) =
     Some [GteTimestamp (utc_ms 2024 1 9 5 0 0 0), LteTimestamp (utc_ms 2024 1 10 4 59 59 999)]
   \<and> local_day_start (tz_offset (zone (- 5))) 2024 1 10 \<le> timestamp rec_late
   \<and> timestamp rec_late \<le> local_day_end (tz_offset (zone (- 5))) 2024 1 10
   \<and> rec_late \<in> set (attendance db_school)
   \<and> response_of (get_attendance (zone (- 5)) query_jan10 db_school) =
       \<lparr>status = 200, body = AttendanceList []\<rparr>"
  by (simp add: query_eval zone_def query_jan10_def school
        local_day_start_def local_day_end_def)

section \<open>Marking a student as trained\<close>

text \<open>
  C6. Marking a student as trained is idempotent: on a store that answers, a second call
  for the same id ends in the same outcome as the first (the same response, status 200,
  and the same store, so the second call changes nothing), and after it every student
  with that id is trained.
\<close>

theorem mark_trained_idempotent:
  "mark_trained NoFault i (db_of (mark_trained NoFault i db)) = mark_trained NoFault i db
   \<and> status (response_of (mark_trained NoFault i db)) = 200
   \<and> (\<forall>s \<in> set (students (db_of (mark_trained NoFault i db))). stu_id s = i \<longrightarrow> is_trained s)"
proof -
  have d: "db_of (mark_trained NoFault i db) = snd (update_trained NoFault db i)"
    by (simp add: mark_trained_ok db_of_def)
  have a: "mark_trained NoFault i (db_of (mark_trained NoFault i db)) = mark_trained NoFault i db"
    unfolding d by (simp add: mark_trained_def update_trained_twice)
  have b: "status (response_of (mark_trained NoFault i db)) = 200"
    by (simp add: mark_trained_ok response_of_def)
  have c: "\<forall>s \<in> set (students (db_of (mark_trained NoFault i db))). stu_id s = i \<longrightarrow> is_trained s"
    unfolding d using update_trained_flag by blast
  from a b c show ?thesis by blast
qed

theorem mark_trained_idempotent_witness:
  "map is_trained (students db_school) = [False, False, True]
   \<and> map is_trained (students (db_of (mark_trained NoFault ''1'' db_school)))
       = [False, True, True]
   \<and> mark_trained NoFault ''1'' (db_of (mark_trained NoFault ''1'' db_school))
       = mark_trained NoFault ''1'' db_school
   \<and> status (response_of (mark_trained NoFault ''1'' db_school)) = 200"
proof -
  have a: "map is_trained (students db_school) = [False, False, True]"
    by (simp add: school)
  have b: "map is_trained (students (db_of (mark_trained NoFault ''1'' db_school)))
             = [False, True, True]"
    by (simp add: mark_trained_ok db_of_def update_trained_def school Let_def)
  note inst = mark_trained_idempotent [of "''1''" db_school]
  show ?thesis by (intro conjI a b inst [THEN conjunct1] inst [THEN conjunct2, THEN conjunct1])
qed

text \<open>
  C7. An update or a query for an id that matches no stored row is a success with an empty
  payload: marking an unknown student as trained is answered 200 with no student in the
  body and leaves the store as it was; an attendance query for a student no record
  mentions is answered 200 with an empty list. No not-found error is produced.
\<close>

theorem unknown_id_is_success:
  "(i \<notin> stu_id ` set (students db) \<longrightarrow>
      mark_trained NoFault i db =
        (\<lparr>status = 200, body = TrainedBody ''Student marked as trained'' None\<rparr>, db, [UpdateCall]))
   \<and> (truthy (q_student_id q) \<and> q_student_id q \<notin> student_id ` set (attendance db)
       \<and> query_fault env = NoFault \<and> date_conditions (tz_offset env) (q_date q) \<noteq> None \<longrightarrow>
      get_attendance env q db = (\<lparr>status = 200, body = AttendanceList []\<rparr>, db, [SelectCall]))"
proof -
  have a: "mark_trained NoFault i db =
        (\<lparr>status = 200, body = TrainedBody ''Student marked as trained'' None\<rparr>, db, [UpdateCall])"
    if h: "i \<notin> stu_id ` set (students db)"
  proof -
    have m: "map (\<lambda>s. if stu_id s = i then s\<lparr>is_trained := True\<rparr> else s) (students db) = students db"
      using h by (intro map_idI) auto
    have f: "filter (\<lambda>s. stu_id s = i) (students db) = []"
      using h by (auto simp: filter_empty_conv)
    show ?thesis by (simp add: mark_trained_def update_trained_def Let_def m f first_row_def)
  qed
  have b: "get_attendance env q db = (\<lparr>status = 200, body = AttendanceList []\<rparr>, db, [SelectCall])"
    if h: "truthy (q_student_id q)" "q_student_id q \<notin> student_id ` set (attendance db)"
          "query_fault env = NoFault" "date_conditions (tz_offset env) (q_date q) \<noteq> None"
  proof -
    from h(4) obtain c3 where c3: "date_conditions (tz_offset env) (q_date q) = Some c3" by blast
    have f: "filter (\<lambda>a. student_id a = q_student_id q \<and> P a) (attendance db) = []" for P
      using h(2) by (fastforce simp: filter_empty_conv image_iff)
    show ?thesis using h(1,3) c3
      by (simp add: get_attendance_def select_attendance_def limit_rows_def Let_def f
            order_timestamp_desc_def)
  qed
  from a b show ?thesis by blast
qed

theorem unknown_id_is_success_witness:
  "''9'' \<notin> stu_id ` set (students db_school)
   \<and> mark_trained NoFault ''9'' db_school =
        (\<lparr>status = 200, body = TrainedBody ''Student marked as trained'' None\<rparr>,
         db_school, [UpdateCall])
   \<and> q_student_id query_unknown \<notin> student_id ` set (attendance db_school)
   \<and> get_attendance (zone 0) query_unknown db_school
      = (\<lparr>status = 200, body = AttendanceList []\<rparr>, db_school, [SelectCall])"
proof -
  have a: "''9'' \<notin> stu_id ` set (students db_school)" by (simp add: school)
  have u: "q_student_id query_unknown \<notin> student_id ` set (attendance db_school)"
    by (simp add: school query_unknown_def)
  have b: "truthy (q_student_id query_unknown)
     \<and> q_student_id query_unknown \<notin> student_id ` set (attendance db_school)
     \<and> query_fault (zone 0) = NoFault
     \<and> date_conditions (tz_offset (zone 0)) (q_date query_unknown) \<noteq> None"
    using u by (simp add: query_unknown_def zone_def date_conditions_def)
  note c = unknown_id_is_success [of "''9''" db_school, THEN conjunct1, THEN mp, OF a]
  note d = unknown_id_is_success [of _ db_school query_unknown "zone 0",
      THEN conjunct2, THEN mp, OF b]
  show ?thesis by (intro conjI a c u d)
qed

section \<open>Listings\<close>

text \<open>
  C8. On a store that answers, the attendance query returns exactly the records that match
  every filter supplied (the student, the room, and the timestamp filters of the date),
  newest first; the student listing returns all students, and the untrained listing
  exactly the students whose flag is false, both ordered by name ascending.
\<close>

theorem listings_filtered_and_ordered:
  "(query_fault env = NoFault \<and> date_conditions (tz_offset env) (q_date q) = Some c3 \<longrightarrow>
      (\<exists>rows. response_of (get_attendance env q db) = \<lparr>status = 200, body = AttendanceList rows\<rparr>
         \<and> mset rows =
             mset (filter (\<lambda>a. (truthy (q_student_id q) \<longrightarrow> student_id a = q_student_id q)
                            \<and> (truthy (q_room_id q) \<longrightarrow> room_id a = q_room_id q)
                            \<and> list_all (\<lambda>c. holds c a) c3) (attendance db))
         \<and> sorted_wrt (\<lambda>a b. timestamp b \<le> timestamp a) rows))
   \<and> (\<exists>rows. response_of (get_students NoFault db) = \<lparr>status = 200, body = StudentList rows\<rparr>
         \<and> mset rows = mset (students db)
         \<and> sorted (map name rows))
   \<and> (\<exists>rows. response_of (get_untrained_students NoFault db) =
                 \<lparr>status = 200, body = StudentList rows\<rparr>
         \<and> mset rows = mset (filter (\<lambda>s. \<not> is_trained s) (students db))
         \<and> sorted (map name rows))"
proof -
  have a: "\<exists>rows. response_of (get_attendance env q db) = \<lparr>status = 200, body = AttendanceList rows\<rparr>
         \<and> mset rows =
             mset (filter (\<lambda>a. (truthy (q_student_id q) \<longrightarrow> student_id a = q_student_id q)
                            \<and> (truthy (q_room_id q) \<longrightarrow> room_id a = q_room_id q)
                            \<and> list_all (\<lambda>c. holds c a) c3) (attendance db))
         \<and> sorted_wrt (\<lambda>a b. timestamp b \<le> timestamp a) rows"
    if h: "query_fault env = NoFault" "date_conditions (tz_offset env) (q_date q) = Some c3"
  proof -
    have e: "(\<lambda>a. (if truthy (q_student_id q) then student_id a = q_student_id q else True)
                     \<and> (if truthy (q_room_id q) then room_id a = q_room_id q else True)
                     \<and> list_all (\<lambda>c. holds c a) c3)
           = (\<lambda>a. (truthy (q_student_id q) \<longrightarrow> student_id a = q_student_id q)
                            \<and> (truthy (q_room_id q) \<longrightarrow> room_id a = q_room_id q)
                            \<and> list_all (\<lambda>c. holds c a) c3)"
      by (rule ext) simp
    show ?thesis
      unfolding get_attendance_ok [OF h] e response_of_def fst_conv
      by (simp add: mset_order_timestamp_desc sorted_order_timestamp_desc)
  qed
  have b: "\<exists>rows. response_of (get_students NoFault db) = \<lparr>status = 200, body = StudentList rows\<rparr>
         \<and> mset rows = mset (students db) \<and> sorted (map name rows)"
    unfolding get_students_def list_students_ok response_of_def fst_conv
    by (simp add: mset_order_name_asc sorted_order_name_asc)
  have c: "\<exists>rows. response_of (get_untrained_students NoFault db) =
                 \<lparr>status = 200, body = StudentList rows\<rparr>
         \<and> mset rows = mset (filter (\<lambda>s. \<not> is_trained s) (students db))
         \<and> sorted (map name rows)"
    unfolding get_untrained_students_def list_students_ok response_of_def fst_conv
    by (simp add: mset_order_name_asc sorted_order_name_asc)
  from a b c show ?thesis by blast
qed

theorem listings_filtered_and_ordered_witness:
  "query_fault (zone 0) = NoFault
   \<and> date_conditions (tz_offset (zone 0)) (q_date query_room) = Some []
   \<and> response_of (get_attendance (zone 0) query_room db_school) =
       \<lparr>status = 200, body = AttendanceList [rec_next, rec_late]\<rparr>
   \<and> sorted_wrt (\<lambda>a b. timestamp b \<le> timestamp a) [rec_next, rec_late]
   \<and> response_of (get_students NoFault db_school) =
       \<lparr>status = 200, body = StudentList [alice, bob, carol]\<rparr>
   \<and> response_of (get_untrained_students NoFault db_school) =
       \<lparr>status = 200, body = StudentList [alice, bob]\<rparr>"
proof -
  have f: "query_fault (zone 0) = NoFault" by (simp add: zone_def)
  have c: "date_conditions (tz_offset (zone 0)) (q_date query_room) = Some []"
    by (simp add: date_conditions_def query_room_def)
  note inst = listings_filtered_and_ordered [of "zone 0" query_room "[]" db_school]
  from inst f c obtain rows where
    r: "response_of (get_attendance (zone 0) query_room db_school) =
          \<lparr>status = 200, body = AttendanceList rows\<rparr>"
    and s: "sorted_wrt (\<lambda>a b. timestamp b \<le> timestamp a) rows"
    by blast
  from r have e: "rows = [rec_next, rec_late]" by (simp add: room_rows)
  have g: "response_of (get_students NoFault db_school) =
       \<lparr>status = 200, body = StudentList [alice, bob, carol]\<rparr>"
    by (simp add: get_students_def list_students_ok response_of_def names_sorted)
  have h: "response_of (get_untrained_students NoFault db_school) =
       \<lparr>status = 200, body = StudentList [alice, bob]\<rparr>"
    by (simp add: get_untrained_students_def list_students_ok response_of_def untrained_sorted)
  show ?thesis using r s unfolding e by (intro conjI f c g h)
qed

end
